theory Spec2Isabelle
  imports Complex_Main "HOL-Library.List_Lexorder"
begin

section \<open>Kernel types\<close>

text \<open>
  The field type \<open>FT\<close> of the kernel is a template parameter of the source. It is taken
  as the rationals: \<open>+\<close>, \<open>-\<close>, \<open>*\<close> and the comparisons are exact, as for an exact
  kernel. Division by zero is not defined by the source; HOL's \<open>x / 0 = 0\<close> is never
  relied upon: every statement that reads a quotient asks for a non-zero divisor.
  Points and vectors are Cartesian coordinate tuples, segments and triangles are tuples
  of their vertices.
\<close>

type_synonym FT = rat
type_synonym point_2 = "FT \<times> FT"
type_synonym vector_2 = "FT \<times> FT"
type_synonym segment_2 = "point_2 \<times> point_2"
type_synonym point_3 = "FT \<times> FT \<times> FT"
type_synonym vector_3 = "FT \<times> FT \<times> FT"
type_synonym segment_3 = "point_3 \<times> point_3"
type_synonym triangle_3 = "point_3 \<times> point_3 \<times> point_3"

section \<open>Distance\_3: squared distance from a point to a triangle\<close>

definition NULL_VECTOR :: vector_3 where
  "NULL_VECTOR = (0, 0, 0)"

text \<open>\<open>k.construct_vector_3_object()(p, q)\<close>: the vector from \<open>p\<close> to \<open>q\<close>.\<close>

fun construct_vector_3 :: "point_3 \<Rightarrow> point_3 \<Rightarrow> vector_3" where
  "construct_vector_3 (px, py, pz) (qx, qy, qz) = (qx - px, qy - py, qz - pz)"

text \<open>
  Modelled from the spec: \<open>wdot\<close>, \<open>wcross\<close> and \<open>squared_distance_to_plane\<close> of
  \<open>CGAL/internal/squared_distance_utils_3.h\<close>, which is not in src. The spec takes the
  kernel primitives as correct: for Cartesian coordinates they are the scalar product,
  the cross product, and the squared distance \<open>(wdot n d)\<^sup>2 / wdot n n\<close> of the tip of
  \<open>d\<close> to the plane through the origin with normal \<open>n\<close>.
\<close>

fun wdot :: "vector_3 \<Rightarrow> vector_3 \<Rightarrow> FT" where
  "wdot (ux, uy, uz) (vx, vy, vz) = ux * vx + uy * vy + uz * vz"

fun wcross :: "vector_3 \<Rightarrow> vector_3 \<Rightarrow> vector_3" where
  "wcross (ux, uy, uz) (vx, vy, vz) =
     (uy * vz - uz * vy, uz * vx - ux * vz, ux * vy - uy * vx)"

definition squared_distance_to_plane :: "vector_3 \<Rightarrow> vector_3 \<Rightarrow> FT" where
  "squared_distance_to_plane normal diff =
     (let dot = wdot normal diff; squared_length = wdot normal normal
      in (dot * dot) / squared_length)"

text \<open>
  Modelled from the spec: the squared distance from a point to a segment,
  \<open>internal::squared_distance(pt, segment, k)\<close> of
  \<open>CGAL/squared_distance_Point_3_Segment_3.h\<close>, which is not in src. It is the exact
  squared Euclidean distance to the closed segment: to the source when the point projects
  before it, to the target when it projects beyond it, to the supporting line otherwise.
  A segment of length zero is allowed and gives the distance to its single point.
\<close>

definition squared_distance_point_segment :: "point_3 \<Rightarrow> segment_3 \<Rightarrow> FT" where
  "squared_distance_point_segment pt seg =
     (let diff = construct_vector_3 (fst seg) pt;
          segvec = construct_vector_3 (fst seg) (snd seg);
          d = wdot diff segvec
      in if d \<le> 0 then wdot diff diff
         else let e = wdot segvec segvec
              in if d > e
                 then (let dt = construct_vector_3 (snd seg) pt in wdot dt dt)
                 else (let wcr = wcross segvec diff in wdot wcr wcr / e))"

text \<open>
  \<open>on_left_of_triangle_edge\<close>: true iff \<open>pt\<close> is on the negative side of the plane
  defined by \<open>(ep0, ep1)\<close> and \<open>normal\<close>.
\<close>

definition on_left_of_triangle_edge ::
  "point_3 \<Rightarrow> vector_3 \<Rightarrow> point_3 \<Rightarrow> point_3 \<Rightarrow> bool" where
  "on_left_of_triangle_edge pt normal ep0 ep1 =
     (let edge = construct_vector_3 ep0 ep1;
          diff = construct_vector_3 ep0 pt
      in wdot (wcross edge normal) diff \<le> 0)"

text \<open>
  \<open>squared_distance_to_triangle\<close>. The reference parameter \<open>inside\<close> is passed in and
  returned with the distance: the first branch sets it, the second leaves it as it was.
  The source has no assertion, throw or error return on either branch, so the result
  type has no error.
\<close>

definition squared_distance_to_triangle ::
  "point_3 \<Rightarrow> point_3 \<Rightarrow> point_3 \<Rightarrow> point_3 \<Rightarrow> bool \<Rightarrow> FT \<times> bool" where
  "squared_distance_to_triangle pt t0 t1 t2 inside =
     (let e1 = construct_vector_3 t0 t1;
          oe3 = construct_vector_3 t0 t2;
          normal = wcross e1 oe3
      in if normal \<noteq> NULL_VECTOR \<and>
            on_left_of_triangle_edge pt normal t0 t1 \<and>
            on_left_of_triangle_edge pt normal t1 t2 \<and>
            on_left_of_triangle_edge pt normal t2 t0
         then (squared_distance_to_plane normal (construct_vector_3 t0 pt), True)
         else (let d1 = squared_distance_point_segment pt (t2, t0);
                   d2 = squared_distance_point_segment pt (t1, t2);
                   d3 = squared_distance_point_segment pt (t0, t1)
               in (min (min d1 d2) d3, inside)))"

text \<open>
  \<open>internal::squared_distance(pt, t, k)\<close>: the vertices of the triangle are taken out
  and the \<open>inside\<close> flag, initialised to \<open>false\<close>, is dropped. The two public overloads
  \<open>squared_distance(pt, t)\<close> and \<open>squared_distance(t, pt)\<close> both forward to it.
\<close>

definition squared_distance_internal :: "point_3 \<Rightarrow> triangle_3 \<Rightarrow> FT" where
  "squared_distance_internal pt t =
     (case t of (v0, v1, v2) \<Rightarrow>
        (let unused_inside = False
         in fst (squared_distance_to_triangle pt v0 v1 v2 unused_inside)))"

definition squared_distance :: "point_3 \<Rightarrow> triangle_3 \<Rightarrow> FT" where
  "squared_distance pt t = squared_distance_internal pt t"

definition squared_distance_triangle_point :: "triangle_3 \<Rightarrow> point_3 \<Rightarrow> FT" where
  "squared_distance_triangle_point t pt = squared_distance_internal pt t"

section \<open>Kinetic shape reconstruction: identifiers, events, event queue\<close>

text \<open>
  A \<open>PVertex\<close> is a pair (support plane index, local vertex id), as the source reads
  \<open>pvertex.first\<close>; a \<open>PFace\<close> likewise. \<open>IVertex\<close> and \<open>IEdge\<close> are descriptors of
  the intersection graph, taken as natural numbers. An \<open>Idx_set\<close> (\<open>std::set\<close> of plane
  indices) is the strictly increasing list of its elements.
\<close>

type_synonym pvertex = "nat \<times> nat"
type_synonym pface = "nat \<times> nat"
type_synonym ivertex = nat
type_synonym iedge = nat
type_synonym idx_set = "nat list"

text \<open>
  Modelled from the spec: \<open>KSR_3::Event\<close> (\<open>CGAL/KSR_3/Event.h\<close> is not in src), a
  tagged union over three kinds that carries the participants and a scalar time. The
  three constructors are the three constructor calls of the source,
  \<open>Event(is_constrained, pvertex, pother | iedge | ivertex, time)\<close>.
\<close>

datatype event =
    PVertex_to_pvertex bool pvertex pvertex FT
  | PVertex_to_iedge bool pvertex iedge FT
  | PVertex_to_ivertex bool pvertex ivertex FT

fun event_pvertex :: "event \<Rightarrow> pvertex" where
  "event_pvertex (PVertex_to_pvertex c pv po t) = pv"
| "event_pvertex (PVertex_to_iedge c pv ie t) = pv"
| "event_pvertex (PVertex_to_ivertex c pv iv t) = pv"

fun event_time :: "event \<Rightarrow> FT" where
  "event_time (PVertex_to_pvertex c pv po t) = t"
| "event_time (PVertex_to_iedge c pv ie t) = t"
| "event_time (PVertex_to_ivertex c pv iv t) = t"

text \<open>
  Modelled from the spec: \<open>KSR_3::Event_queue\<close> (\<open>CGAL/KSR_3/Event_queue.h\<close> is not in
  src), a multiset of events ordered by time with insertion, extraction of the minimum
  and bulk erase of all events referencing a given PVertex or a given (IEdge, support
  plane) pair. The multiset is a list in insertion order; \<open>pop\<close> takes an event of
  least time and is only called on a non-empty queue.
\<close>

type_synonym event_queue = "event list"

definition push :: "event \<Rightarrow> event_queue \<Rightarrow> event_queue" where
  "push ev q = q @ [ev]"

definition pop :: "event_queue \<Rightarrow> event \<times> event_queue" where
  "pop q = (let ev = arg_min_list event_time q in (ev, remove1 ev q))"

fun references_pvertex :: "pvertex \<Rightarrow> event \<Rightarrow> bool" where
  "references_pvertex v (PVertex_to_pvertex c pv po t) = (pv = v \<or> po = v)"
| "references_pvertex v (PVertex_to_iedge c pv ie t) = (pv = v)"
| "references_pvertex v (PVertex_to_ivertex c pv iv t) = (pv = v)"

fun references_iedge :: "iedge \<Rightarrow> nat \<Rightarrow> event \<Rightarrow> bool" where
  "references_iedge e sp (PVertex_to_iedge c pv ie t) = (ie = e \<and> fst pv = sp)"
| "references_iedge e sp (PVertex_to_pvertex c pv po t) = False"
| "references_iedge e sp (PVertex_to_ivertex c pv iv t) = False"

definition erase_vertex_events :: "pvertex \<Rightarrow> event_queue \<Rightarrow> event_queue" where
  "erase_vertex_events pvertex q = filter (\<lambda>ev. \<not> references_pvertex pvertex ev) q"

definition erase_vertex_events_of_iedge :: "iedge \<Rightarrow> nat \<Rightarrow> event_queue \<Rightarrow> event_queue" where
  "erase_vertex_events_of_iedge iedge support_plane_idx q =
     filter (\<lambda>ev. \<not> references_iedge iedge support_plane_idx ev) q"

section \<open>Outcomes: return, fatal stop, fuel\<close>

text \<open>
  A call of the driver either returns a value, or stops the process (a failed assertion,
  \<open>exit\<close>, or a read the language leaves undefined), or is cut off because a loop was
  given too little fuel. The state reached is kept in the first two cases.

  Modelled from the spec: the macros \<open>CGAL_assertion\<close> and \<open>CGAL_assertion_msg\<close>
  (\<open>CGAL/assertions.h\<close> is not in src). The spec makes a violated assertion fatal: it
  aborts the run at once. \<open>CGAL_warning_msg\<close> only emits a diagnostic and is not part of
  the state, as are the writes to \<open>std::cout\<close>, \<open>std::cerr\<close> and the \<open>dump\<close> calls.
\<close>

datatype halt =
    Assertion_failed string
  | Exit_process nat
  | Undefined_behaviour string

datatype ('a, 's) result =
    Returns 'a 's
  | Halts halt 's
  | Out_of_fuel

definition and_then ::
  "('a, 's) result \<Rightarrow> ('a \<Rightarrow> 's \<Rightarrow> ('b, 's) result) \<Rightarrow> ('b, 's) result" where
  "and_then r f =
     (case r of Returns a s \<Rightarrow> f a s | Halts h s \<Rightarrow> Halts h s | Out_of_fuel \<Rightarrow> Out_of_fuel)"

definition CGAL_assertion :: "bool \<Rightarrow> string \<Rightarrow> 's \<Rightarrow> (unit, 's) result" where
  "CGAL_assertion cond msg s = (if cond then Returns () s else Halts (Assertion_failed msg) s)"

definition EXIT_SUCCESS :: nat where
  "EXIT_SUCCESS = 0"

text \<open>
  \<open>holds_after P r\<close>: the property \<open>P\<close> holds of the state in which the call with outcome
  \<open>r\<close> has stopped, whether it returned or stopped the process. It says nothing of a
  call that was cut off for lack of fuel.
\<close>

fun holds_after :: "('s \<Rightarrow> bool) \<Rightarrow> ('a, 's) result \<Rightarrow> bool" where
  "holds_after P (Returns a s) = P s"
| "holds_after P (Halts h s) = P s"
| "holds_after P Out_of_fuel = True"

section \<open>The data structure and the kernel, as used by the driver\<close>

text \<open>
  \<open>KSR_3::Data_structure\<close> and \<open>KSR_3::Polygon_splitter\<close> are not in src. The driver is
  modelled over any type \<open>'d\<close> of data structures, with the member functions it calls
  given as a record of functions: observers read \<open>'d\<close>, mutators return the new \<open>'d\<close>
  next to their result. Overloads of the source get distinct field names.

  The one part of the data structure the driver writes itself is the reference returned
  by \<open>m_data.k(pface)\<close>: the data structure is a record of the table \<open>k_of\<close> of these
  numbers and of the rest, \<open>core\<close>, so that \<open>m_data.k(pface)\<close> reads \<open>k_of d pface\<close> and
  an assignment to it updates the table at \<open>pface\<close>. The number is an \<open>unsigned int\<close>
  in the driver, a natural number here: the driver only assigns it and decrements it
  when it is greater than one, so it never wraps.
\<close>

record 'x data =
  k_of :: "pface \<Rightarrow> nat"
  core :: 'x

definition set_k :: "pface \<Rightarrow> nat \<Rightarrow> 'x data \<Rightarrow> 'x data" where
  "set_k pface v d = d\<lparr>k_of := (k_of d)(pface := v)\<rparr>"

record 'd data_structure =
  number_of_support_planes :: "'d \<Rightarrow> nat"
  is_mesh_valid :: "'d \<Rightarrow> nat \<Rightarrow> bool"
  iedges_of_plane :: "'d \<Rightarrow> nat \<Rightarrow> iedge list"
  iedges_all :: "'d \<Rightarrow> iedge list"
  intersected_planes :: "'d \<Rightarrow> iedge \<Rightarrow> idx_set"
  intersected_planes_of_ivertex :: "'d \<Rightarrow> ivertex \<Rightarrow> bool \<Rightarrow> idx_set"
  ivertices :: "'d \<Rightarrow> ivertex list"
  str :: "'d \<Rightarrow> iedge \<Rightarrow> string"
  pfaces_of_plane :: "'d \<Rightarrow> nat \<Rightarrow> pface list"
  pvertices_of_plane :: "'d \<Rightarrow> nat \<Rightarrow> pvertex list"
  null_pvertex :: pvertex
  null_ivertex :: ivertex
  null_iedge :: iedge
  is_frozen :: "'d \<Rightarrow> pvertex \<Rightarrow> bool"
  is_active :: "'d \<Rightarrow> pvertex \<Rightarrow> bool"
  is_active_ivertex :: "'d \<Rightarrow> ivertex \<Rightarrow> bool"
  is_active_iedge :: "'d \<Rightarrow> iedge \<Rightarrow> bool"
  has_iedge :: "'d \<Rightarrow> pvertex \<Rightarrow> bool"
  iedge_of :: "'d \<Rightarrow> pvertex \<Rightarrow> iedge"
  prev_and_next :: "'d \<Rightarrow> pvertex \<Rightarrow> pvertex \<times> pvertex"
  border_prev_and_next :: "'d \<Rightarrow> pvertex \<Rightarrow> pvertex \<times> pvertex"
  prev_pvertex :: "'d \<Rightarrow> pvertex \<Rightarrow> pvertex"
  next_pvertex :: "'d \<Rightarrow> pvertex \<Rightarrow> pvertex"
  pface_of_pvertex :: "'d \<Rightarrow> pvertex \<Rightarrow> pface"
  speed :: "'d \<Rightarrow> pvertex \<Rightarrow> FT"
  current_time :: "'d \<Rightarrow> FT"
  source :: "'d \<Rightarrow> iedge \<Rightarrow> ivertex"
  target :: "'d \<Rightarrow> iedge \<Rightarrow> ivertex"
  point_2 :: "'d \<Rightarrow> pvertex \<Rightarrow> FT \<Rightarrow> point_2"
  point_3 :: "'d \<Rightarrow> ivertex \<Rightarrow> point_3"
  segment_2 :: "'d \<Rightarrow> nat \<Rightarrow> iedge \<Rightarrow> segment_2"
  to_2d :: "'d \<Rightarrow> nat \<Rightarrow> ivertex \<Rightarrow> point_2"
  to_2d_segment :: "'d \<Rightarrow> nat \<Rightarrow> segment_3 \<Rightarrow> segment_2"
  to_3d :: "'d \<Rightarrow> nat \<Rightarrow> point_2 \<Rightarrow> point_3"
  collision_occured :: "'d \<Rightarrow> pvertex \<Rightarrow> iedge \<Rightarrow> bool \<times> bool"
  is_occupied :: "'d \<Rightarrow> pvertex \<Rightarrow> iedge \<Rightarrow> bool \<times> bool"
  pvertices_around_ivertex :: "'d \<Rightarrow> pvertex \<Rightarrow> ivertex \<Rightarrow> pvertex list"
  reserve :: "nat \<Rightarrow> 'd \<Rightarrow> 'd"
  add_bbox_polygon :: "point_3 list \<Rightarrow> 'd \<Rightarrow> 'd"
  add_input_polygon :: "point_3 list \<Rightarrow> nat \<Rightarrow> 'd \<Rightarrow> 'd"
  add_ivertex :: "point_3 \<Rightarrow> idx_set \<Rightarrow> 'd \<Rightarrow> ivertex \<times> 'd"
  add_iedge :: "idx_set \<Rightarrow> ivertex list \<Rightarrow> 'd \<Rightarrow> 'd"
  split_support_plane :: "nat \<Rightarrow> 'd \<Rightarrow> 'd"
  check_bbox :: "'d \<Rightarrow> 'd"
  update_positions :: "FT \<Rightarrow> 'd \<Rightarrow> 'd"
  deactivate :: "pvertex \<Rightarrow> 'd \<Rightarrow> 'd"
  activate :: "pvertex \<Rightarrow> 'd \<Rightarrow> 'd"
  set_last_event_time :: "pvertex \<Rightarrow> FT \<Rightarrow> 'd \<Rightarrow> 'd"
  transfer_vertex :: "pvertex \<Rightarrow> pvertex \<Rightarrow> 'd \<Rightarrow> bool \<times> 'd"
  crop_polygon :: "pvertex \<Rightarrow> iedge \<Rightarrow> 'd \<Rightarrow> pvertex \<times> 'd"
  crop_polygon_pair :: "pvertex \<Rightarrow> pvertex \<Rightarrow> iedge \<Rightarrow> 'd \<Rightarrow> 'd"
  propagate_polygon :: "nat \<Rightarrow> pvertex \<Rightarrow> iedge \<Rightarrow> 'd \<Rightarrow> (pvertex \<times> pvertex \<times> pvertex) \<times> 'd"
  propagate_polygon_pair ::
    "nat \<Rightarrow> pvertex \<Rightarrow> pvertex \<Rightarrow> iedge \<Rightarrow> 'd \<Rightarrow> (pvertex \<times> pvertex) \<times> 'd"
  merge_pvertices_on_ivertex ::
    "FT \<Rightarrow> FT \<Rightarrow> pvertex list \<Rightarrow> ivertex \<Rightarrow> 'd \<Rightarrow> (pvertex list \<times> iedge list) \<times> 'd"

text \<open>
  The kernel and utility functions of headers that are not in src, taken as parameters:
  \<open>CGAL::approximate_sqrt\<close>, \<open>KSR::intersection\<close> of two 2D segments (\<open>None\<close> when it
  returns \<open>false\<close>), \<open>KSR::distance\<close> of two 3D points, and \<open>std::to_string\<close>.
\<close>

record kernel =
  approximate_sqrt :: "FT \<Rightarrow> FT"
  intersection :: "segment_2 \<Rightarrow> segment_2 \<Rightarrow> point_2 option"
  distance :: "point_3 \<Rightarrow> point_3 \<Rightarrow> FT"
  to_string :: "nat \<Rightarrow> string"

text \<open>
  Modelled from the spec: the 2D kernel primitives the driver calls (vector between two
  points, scalar product, squared distance, squared length and bounding box of a segment,
  overlap of two boxes), taken as exact. A \<open>Bbox_2\<close> is \<open>(xmin, ymin, xmax, ymax)\<close>.
\<close>

type_synonym bbox_2 = "FT \<times> FT \<times> FT \<times> FT"

fun Vector_2 :: "point_2 \<Rightarrow> point_2 \<Rightarrow> vector_2" where
  "Vector_2 (px, py) (qx, qy) = (qx - px, qy - py)"

definition to_vector :: "segment_2 \<Rightarrow> vector_2" where
  "to_vector seg = Vector_2 (fst seg) (snd seg)"

fun scalar_product :: "vector_2 \<Rightarrow> vector_2 \<Rightarrow> FT" where
  "scalar_product (ux, uy) (vx, vy) = ux * vx + uy * vy"

definition squared_distance_2 :: "point_2 \<Rightarrow> point_2 \<Rightarrow> FT" where
  "squared_distance_2 p q = (let v = Vector_2 p q in scalar_product v v)"

definition squared_length :: "segment_2 \<Rightarrow> FT" where
  "squared_length seg = squared_distance_2 (fst seg) (snd seg)"

fun segment_bbox :: "segment_2 \<Rightarrow> bbox_2" where
  "segment_bbox ((px, py), (qx, qy)) = (min px qx, min py qy, max px qx, max py qy)"

fun do_overlap :: "bbox_2 \<Rightarrow> bbox_2 \<Rightarrow> bool" where
  "do_overlap (xmin1, ymin1, xmax1, ymax1) (xmin2, ymin2, xmax2, ymax2) =
     (\<not> (xmax1 < xmin2 \<or> xmax2 < xmin1 \<or> ymax1 < ymin2 \<or> ymax2 < ymin1))"

section \<open>The driver \<open>Kinetic_shape_reconstruction_3\<close>\<close>

record 'd ksr =
  m_data :: 'd
  m_queue :: event_queue
  m_min_time :: FT
  m_max_time :: FT
  m_verbose :: bool

text \<open>
  The constructor: both times are \<open>-1\<close>, the queue is empty, and \<open>m_data\<close> is the
  default-constructed data structure, given as \<open>fresh\<close>.
\<close>

definition Kinetic_shape_reconstruction_3 :: "'d \<Rightarrow> bool \<Rightarrow> 'd ksr" where
  "Kinetic_shape_reconstruction_3 fresh verbose =
     \<lparr>m_data = fresh, m_queue = [], m_min_time = - 1, m_max_time = - 1, m_verbose = verbose\<rparr>"

subsection \<open>\<open>set_k_intersections\<close>\<close>

text \<open>
  The outer loop reads \<open>m_data.number_of_support_planes()\<close> again at every turn, on the
  data structure as the writes have left it, so it takes fuel: one unit for each turn.
  The range of the inner loop is read once, before the writes of that turn.
\<close>

fun set_k_intersections_from ::
  "('x data) data_structure \<Rightarrow> nat \<Rightarrow> nat \<Rightarrow> nat \<Rightarrow> 'x data \<Rightarrow> 'x data option" where
  "set_k_intersections_from D 0 k i d =
     (if i < number_of_support_planes D d then None else Some d)"
| "set_k_intersections_from D (Suc fuel) k i d =
     (if i < number_of_support_planes D d
      then set_k_intersections_from D fuel k (Suc i)
             (fold (\<lambda>pface. set_k pface k) (pfaces_of_plane D d i) d)
      else Some d)"

definition set_k_intersections ::
  "('x data) data_structure \<Rightarrow> nat \<Rightarrow> nat \<Rightarrow> 'x data \<Rightarrow> 'x data option" where
  "set_k_intersections D fuel k d = set_k_intersections_from D fuel k 0 d"

subsection \<open>\<open>check_integrity\<close>\<close>

text \<open>
  A failed check returns \<open>false\<close>; when \<open>m_verbose\<close> is set it first fails the
  assertion \<open>CGAL_assertion_msg(false, msg)\<close>.
\<close>

definition integrity_failure :: "string \<Rightarrow> 'd ksr \<Rightarrow> (bool, 'd ksr) result" where
  "integrity_failure msg s =
     (if m_verbose s then Halts (Assertion_failed msg) s else Returns False s)"

fun check_integrity_planes ::
  "'d data_structure \<Rightarrow> kernel \<Rightarrow> nat list \<Rightarrow> 'd ksr \<Rightarrow> (bool, 'd ksr) result" where
  "check_integrity_planes D K [] s = Returns True s"
| "check_integrity_planes D K (i # rest) s =
     (if \<not> is_mesh_valid D (m_data s) i
      then integrity_failure (''ERROR: mesh '' @ to_string K i @ '' is not valid!'') s
      else (case find (\<lambda>iedge. i \<notin> set (intersected_planes D (m_data s) iedge))
                   (iedges_of_plane D (m_data s) i) of
              Some iedge \<Rightarrow>
                integrity_failure
                  (''ERROR: support_plane '' @ to_string K i @ '' is intersected by '' @
                   str D (m_data s) iedge @ '' but it claims it does not intersect it!'') s
            | None \<Rightarrow> check_integrity_planes D K rest s))"

fun check_integrity_iedges ::
  "'d data_structure \<Rightarrow> kernel \<Rightarrow> iedge list \<Rightarrow> 'd ksr \<Rightarrow> (bool, 'd ksr) result" where
  "check_integrity_iedges D K [] s = Returns True s"
| "check_integrity_iedges D K (iedge # rest) s =
     (case find (\<lambda>support_plane_idx. iedge \<notin> set (iedges_of_plane D (m_data s) support_plane_idx))
                (intersected_planes D (m_data s) iedge) of
        Some support_plane_idx \<Rightarrow>
          integrity_failure
            (''ERROR: iedge '' @ str D (m_data s) iedge @ '' intersects support plane '' @
             to_string K support_plane_idx @ '' but it claims it is not intersected by it!'') s
      | None \<Rightarrow> check_integrity_iedges D K rest s)"

definition check_integrity :: "'d data_structure \<Rightarrow> kernel \<Rightarrow> 'd ksr \<Rightarrow> (bool, 'd ksr) result" where
  "check_integrity D K s =
     and_then (check_integrity_planes D K [0 ..< number_of_support_planes D (m_data s)] s)
       (\<lambda>ok s. if ok then check_integrity_iedges D K (iedges_all D (m_data s)) s
                else Returns False s)"

subsection \<open>\<open>init_search_structures\<close>\<close>

text \<open>
  The three output vectors are empty at every call of the source and are returned as
  a triple.
\<close>

definition init_search_structures ::
  "'d data_structure \<Rightarrow> 'd \<Rightarrow> nat \<Rightarrow> iedge list \<times> segment_2 list \<times> bbox_2 list" where
  "init_search_structures D d i =
     (let iedges = iedges_of_plane D d i;
          segments_2 = map (segment_2 D d i) iedges;
          segment_bboxes = map segment_bbox segments_2
      in (iedges, segments_2, segment_bboxes))"

subsection \<open>\<open>compute_events_of_vertex\<close>\<close>

text \<open>
  The bodies of the three \<open>for\<close> loops of \<open>compute_events_of_vertex\<close>: the test of a
  neighbour \<open>pother\<close> and the test of an end vertex \<open>ivertex\<close> of the intersection edge
  for a constrained vertex, and the test of the \<open>j\<close>-th intersection edge for a free one.
  A \<open>continue\<close> leaves the state as it is. The three vectors of the search structure
  have the same length at every call of the source, which \<open>segments_2 ! j\<close> and
  \<open>segment_bboxes ! j\<close> rely on.
\<close>

definition test_pother ::
  "'d data_structure \<Rightarrow> kernel \<Rightarrow> pvertex \<Rightarrow> segment_2 \<Rightarrow> pvertex \<Rightarrow> 'd ksr \<Rightarrow> 'd ksr" where
  "test_pother D K pvertex sv pother s =
     (let d = m_data s in
      if pother = null_pvertex D \<or> \<not> is_active D d pother \<or> has_iedge D d pother then s
      else let so = (point_2 D d pother (m_min_time s), point_2 D d pother (m_max_time s));
               so_bbox = segment_bbox so
           in if \<not> do_overlap (segment_bbox sv) so_bbox then s
              else (case intersection K sv so of
                      None \<Rightarrow> s
                    | Some point \<Rightarrow>
                        (let dist = approximate_sqrt K (squared_distance_2 (fst sv) point);
                             time = dist / speed D d pvertex
                         in s\<lparr>m_queue :=
                                push (PVertex_to_pvertex True pvertex pother (m_min_time s + time))
                                     (m_queue s)\<rparr>)))"

definition test_ivertex ::
  "'d data_structure \<Rightarrow> kernel \<Rightarrow> pvertex \<Rightarrow> segment_2 \<Rightarrow> ivertex \<Rightarrow> 'd ksr \<Rightarrow> 'd ksr" where
  "test_ivertex D K pvertex sv ivertex s =
     (let d = m_data s in
      if \<not> is_active_ivertex D d ivertex then s
      else let pi = to_2d D d (fst pvertex) ivertex
           in if scalar_product (to_vector sv) (Vector_2 (fst sv) pi) < 0 then s
              else let dist = approximate_sqrt K (squared_distance_2 (fst sv) pi);
                       time = dist / speed D d pvertex
                   in if time < m_max_time s - m_min_time s
                      then s\<lparr>m_queue :=
                               push (PVertex_to_ivertex True pvertex ivertex (m_min_time s + time))
                                    (m_queue s)\<rparr>
                      else s)"

definition test_iedge ::
  "'d data_structure \<Rightarrow> kernel \<Rightarrow> pvertex \<Rightarrow> segment_2 \<Rightarrow> pvertex \<Rightarrow> pvertex \<Rightarrow>
   iedge list \<Rightarrow> segment_2 list \<Rightarrow> bbox_2 list \<Rightarrow> nat \<Rightarrow> 'd ksr \<Rightarrow> 'd ksr" where
  "test_iedge D K pvertex sv prev nxt iedges segments_2 segment_bboxes j s =
     (let d = m_data s; iedge = iedges ! j in
      if iedge_of D d prev = iedge \<or> iedge_of D d nxt = iedge then s
      else if \<not> is_active_iedge D d iedge then s
      else if \<not> do_overlap (segment_bbox sv) (segment_bboxes ! j) then s
      else (case intersection K sv (segments_2 ! j) of
              None \<Rightarrow> s
            | Some point \<Rightarrow>
                (let dist = approximate_sqrt K
                              (squared_distance_2 (point_2 D d pvertex (m_min_time s)) point);
                     time = dist / speed D d pvertex
                 in s\<lparr>m_queue :=
                        push (PVertex_to_iedge False pvertex iedge (m_min_time s + time))
                             (m_queue s)\<rparr>)))"

definition compute_events_of_vertex ::
  "'d data_structure \<Rightarrow> kernel \<Rightarrow> pvertex \<Rightarrow> iedge list \<Rightarrow> segment_2 list \<Rightarrow> bbox_2 list \<Rightarrow>
   'd ksr \<Rightarrow> bool \<times> 'd ksr" where
  "compute_events_of_vertex D K pvertex iedges segments_2 segment_bboxes s =
     (let d = m_data s in
      if is_frozen D d pvertex then (False, s)
      else
        let sv = (point_2 D d pvertex (m_min_time s), point_2 D d pvertex (m_max_time s))
        in if has_iedge D d pvertex
           then
             (let (prev, nxt) = prev_and_next D d pvertex;
                  s1 = fold (test_pother D K pvertex sv) [prev, nxt] s;
                  iedge = iedge_of D d pvertex;
                  s2 = fold (test_ivertex D K pvertex sv) [source D d iedge, target D d iedge] s1
              in (True, s2))
           else
             (let prev = prev_pvertex D d pvertex;
                  nxt = next_pvertex D d pvertex;
                  s1 = fold (test_iedge D K pvertex sv prev nxt iedges segments_2 segment_bboxes)
                         [0 ..< length iedges] s
              in (True, s1)))"

subsection \<open>\<open>initialize_queue\<close>\<close>

text \<open>
  \<open>compute_events_of_vertex\<close> writes the queue only, so the bound of the loop over the
  support planes is the same at every turn. \<open>initialize_queue_plane\<close> is the body of
  that loop for the plane \<open>i\<close>, on the pair of \<open>still_running\<close> and the state.
\<close>

definition initialize_queue_vertex ::
  "'d data_structure \<Rightarrow> kernel \<Rightarrow> iedge list \<times> segment_2 list \<times> bbox_2 list \<Rightarrow> pvertex \<Rightarrow>
   bool \<times> 'd ksr \<Rightarrow> bool \<times> 'd ksr" where
  "initialize_queue_vertex D K search pvertex acc =
     (case search of (iedges, segments_2, segment_bboxes) \<Rightarrow>
        (case acc of (still_running, s) \<Rightarrow>
           (case compute_events_of_vertex D K pvertex iedges segments_2 segment_bboxes s of
              (found, s') \<Rightarrow> (if found then True else still_running, s'))))"

definition initialize_queue_plane ::
  "'d data_structure \<Rightarrow> kernel \<Rightarrow> nat \<Rightarrow> bool \<times> 'd ksr \<Rightarrow> bool \<times> 'd ksr" where
  "initialize_queue_plane D K i acc =
     (let d = m_data (snd acc);
          search = init_search_structures D d i
      in fold (initialize_queue_vertex D K search) (pvertices_of_plane D d i) acc)"

definition initialize_queue :: "'d data_structure \<Rightarrow> kernel \<Rightarrow> 'd ksr \<Rightarrow> bool \<times> 'd ksr" where
  "initialize_queue D K s =
     (let s1 = s\<lparr>m_data := update_positions D (m_max_time s) (m_data s)\<rparr>;
          still_running = False;
          (still_running, s2) =
             fold (initialize_queue_plane D K)
               [0 ..< number_of_support_planes D (m_data s1)] (still_running, s1);
          s3 = s2\<lparr>m_data := update_positions D (m_min_time s2) (m_data s2)\<rparr>
      in (still_running, s3))"

subsection \<open>\<open>are_parallel\<close>\<close>

definition are_parallel :: "segment_2 \<Rightarrow> segment_2 \<Rightarrow> bool" where
  "are_parallel seg1 seg2 =
     (let tol = 1 / 100000;
          d1 = fst (snd seg1) - fst (fst seg1);
          d2 = fst (snd seg2) - fst (fst seg2);
          m1 = (if \<bar>d1\<bar> > tol then (snd (snd seg1) - snd (fst seg1)) / d1 else 100000);
          m2 = (if \<bar>d2\<bar> > tol then (snd (snd seg2) - snd (fst seg2)) / d2 else 100000)
      in \<bar>m1 - m2\<bar> < tol)"

subsection \<open>\<open>remove_events\<close> and \<open>compute_events_of_vertices\<close>\<close>

definition remove_events :: "pvertex \<Rightarrow> 'd ksr \<Rightarrow> 'd ksr" where
  "remove_events pvertex s = s\<lparr>m_queue := erase_vertex_events pvertex (m_queue s)\<rparr>"

definition remove_events_of_iedge :: "iedge \<Rightarrow> nat \<Rightarrow> 'd ksr \<Rightarrow> 'd ksr" where
  "remove_events_of_iedge iedge support_plane_idx s =
     s\<lparr>m_queue := erase_vertex_events_of_iedge iedge support_plane_idx (m_queue s)\<rparr>"

text \<open>
  \<open>pvertices.front()\<close> is read with \<open>hd\<close>: every call of the source passes an array of
  one to four vertices, or a vector it has just asserted to be non-empty.
\<close>

definition compute_events_of_vertices ::
  "'d data_structure \<Rightarrow> kernel \<Rightarrow> FT \<Rightarrow> pvertex list \<Rightarrow> 'd ksr \<Rightarrow> 'd ksr" where
  "compute_events_of_vertices D K last_event_time pvertices s =
     (let s1 = s\<lparr>m_min_time := current_time D (m_data s)\<rparr>;
          s2 = s1\<lparr>m_data := update_positions D (m_max_time s1) (m_data s1)\<rparr>;
          (iedges, segments_2, segment_bboxes) =
             init_search_structures D (m_data s2) (fst (hd pvertices));
          s3 = s2\<lparr>m_data := fold (deactivate D) pvertices (m_data s2)\<rparr>;
          s4 = fold (\<lambda>pvertex s.
                  snd (compute_events_of_vertex D K pvertex iedges segments_2 segment_bboxes
                         (s\<lparr>m_data := set_last_event_time D pvertex last_event_time (m_data s)\<rparr>)))
                 pvertices s3;
          s5 = s4\<lparr>m_data := fold (activate D) pvertices (m_data s4)\<rparr>
      in s5\<lparr>m_data := update_positions D (m_min_time s5) (m_data s5)\<rparr>)"

subsection \<open>\<open>apply\<close>\<close>

text \<open>
  \<open>apply\<close> is given in four parts: the branch of a \<open>pvertex_to_pvertex\<close> event, the two
  ways a \<open>pvertex_to_iedge\<close> event is handled (the body of the \<open>for\<close> loop over
  \<open>{prev, next}\<close> once it is entered, and the block under \<open>if (!done)\<close>), and the
  branch of a \<open>pvertex_to_ivertex\<close> event; \<open>apply_event\<close> is \<open>apply\<close> itself, which
  dispatches on the kind of the event. The parameter \<open>k\<close> of \<open>apply\<close> is not read by the
  source. \<open>decrement_k\<close> is the statement \<open>m_data.k(pface)--\<close>.
\<close>

definition decrement_k :: "pface \<Rightarrow> 'x data ksr \<Rightarrow> 'x data ksr" where
  "decrement_k pface s = s\<lparr>m_data := set_k pface (k_of (m_data s) pface - 1) (m_data s)\<rparr>"

text \<open>
  The blocks under \<open>if (stop)\<close> (the polygon stops: \<open>crop_polygon\<close>) and under its
  \<open>else\<close> (the polygon continues beyond the edge: \<open>propagate_polygon\<close>, which is handed
  \<open>m_data.k(pface)\<close>), for a single vertex and for a pair of vertices.
\<close>

definition single_vertex_stops ::
  "('x data) data_structure \<Rightarrow> kernel \<Rightarrow> FT \<Rightarrow> pvertex \<Rightarrow> iedge \<Rightarrow> 'x data ksr \<Rightarrow> 'x data ksr"
  where
  "single_vertex_stops D K ev_time pvertex iedge s =
     (let (pvnew, d) = crop_polygon D pvertex iedge (m_data s);
          s = remove_events_of_iedge iedge (fst pvertex) (s\<lparr>m_data := d\<rparr>)
      in compute_events_of_vertices D K ev_time [pvertex, pvnew] s)"

definition single_vertex_continues ::
  "('x data) data_structure \<Rightarrow> kernel \<Rightarrow> FT \<Rightarrow> pvertex \<Rightarrow> iedge \<Rightarrow> pface \<Rightarrow> 'x data ksr \<Rightarrow>
   'x data ksr" where
  "single_vertex_continues D K ev_time pvertex iedge pface s =
     (let ((pv0, pv1, pv2), d) =
            propagate_polygon D (k_of (m_data s) pface) pvertex iedge (m_data s);
          s = remove_events_of_iedge iedge (fst pvertex) (s\<lparr>m_data := d\<rparr>)
      in compute_events_of_vertices D K ev_time [pv0, pv1, pv2] s)"

definition two_vertices_stop ::
  "('x data) data_structure \<Rightarrow> kernel \<Rightarrow> FT \<Rightarrow> pvertex \<Rightarrow> pvertex \<Rightarrow> iedge \<Rightarrow> 'x data ksr \<Rightarrow>
   'x data ksr" where
  "two_vertices_stop D K ev_time pvertex pother iedge s =
     (let d = crop_polygon_pair D pvertex pother iedge (m_data s);
          s = remove_events_of_iedge iedge (fst pvertex) (s\<lparr>m_data := d\<rparr>)
      in compute_events_of_vertices D K ev_time [pvertex, pother] s)"

definition two_vertices_continue ::
  "('x data) data_structure \<Rightarrow> kernel \<Rightarrow> FT \<Rightarrow> pvertex \<Rightarrow> pvertex \<Rightarrow> iedge \<Rightarrow> pface \<Rightarrow>
   'x data ksr \<Rightarrow> 'x data ksr" where
  "two_vertices_continue D K ev_time pvertex pother iedge pface s =
     (let ((pv0, pv1), d) =
            propagate_polygon_pair D (k_of (m_data s) pface) pvertex pother iedge (m_data s);
          s = remove_events_of_iedge iedge (fst pvertex) (s\<lparr>m_data := d\<rparr>)
      in compute_events_of_vertices D K ev_time [pvertex, pother, pv0, pv1] s)"

definition apply_pvertex_to_pvertex ::
  "('x data) data_structure \<Rightarrow> kernel \<Rightarrow> FT \<Rightarrow> pvertex \<Rightarrow> pvertex \<Rightarrow> 'x data ksr \<Rightarrow>
   (unit, 'x data ksr) result" where
  "apply_pvertex_to_pvertex D K ev_time pvertex pother s =
     (let s = remove_events pvertex s;
          s = remove_events pother s
      in and_then (CGAL_assertion (has_iedge D (m_data s) pvertex) ''m_data.has_iedge(pvertex)'' s)
         (\<lambda>_ s.
           if has_iedge D (m_data s) pother
           then CGAL_assertion False ''TODO: ADD CASE TWO CONSTRAINED PVERTICES MEET!'' s
           else
             (let (transferred, d) = transfer_vertex D pvertex pother (m_data s);
                  s = s\<lparr>m_data := d\<rparr>
              in if transferred
                 then
                   (let s = (if has_iedge D (m_data s) pvertex
                             then remove_events_of_iedge (iedge_of D (m_data s) pvertex) (fst pvertex) s
                             else s);
                        s = (if has_iedge D (m_data s) pother
                             then remove_events_of_iedge (iedge_of D (m_data s) pother) (fst pother) s
                             else s);
                        s = compute_events_of_vertices D K ev_time [pvertex, pother] s;
                        (prev, nxt) = border_prev_and_next D (m_data s) pvertex;
                        pthird = (if prev = pother then nxt else prev)
                    in and_then
                         (if prev = pother then Returns () s
                          else CGAL_assertion (nxt = pother) ''next == pother'' s)
                         (\<lambda>_ s.
                            let s = (if has_iedge D (m_data s) pthird
                                     then remove_events_of_iedge (iedge_of D (m_data s) pthird)
                                            (fst pthird) s
                                     else s)
                            in Returns () (compute_events_of_vertices D K ev_time [pthird] s)))
                 else
                   (let s = (if has_iedge D (m_data s) pvertex
                             then remove_events_of_iedge (iedge_of D (m_data s) pvertex) (fst pvertex) s
                             else s)
                    in Returns () (compute_events_of_vertices D K ev_time [pvertex] s)))))"

definition apply_two_vertices_crossing ::
  "('x data) data_structure \<Rightarrow> kernel \<Rightarrow> FT \<Rightarrow> pvertex \<Rightarrow> pvertex \<Rightarrow> iedge \<Rightarrow> pface \<Rightarrow>
   'x data ksr \<Rightarrow> (unit, 'x data ksr) result" where
  "apply_two_vertices_crossing D K ev_time pvertex pother iedge pface s =
     (let s = remove_events pvertex s;
          s = remove_events pother s;
          (collision, bbox_reached) = collision_occured D (m_data s) pvertex iedge;
          (collision_other, bbox_reached_other) = collision_occured D (m_data s) pother iedge
      in and_then
           (if bbox_reached
            then and_then (CGAL_assertion bbox_reached_other ''bbox_reached_other'' s)
                   (\<lambda>_ s. Returns True s)
            else if bbox_reached_other
            then and_then (CGAL_assertion bbox_reached ''bbox_reached'' s)
                   (\<lambda>_ s. Returns True s)
            else if (collision \<or> collision_other) \<and> k_of (m_data s) pface = 1
            then Returns True s
            else if (collision \<or> collision_other) \<and> k_of (m_data s) pface > 1
            then Returns False (decrement_k pface s)
            else and_then
                   (CGAL_assertion (iedge_of D (m_data s) pvertex = iedge_of D (m_data s) pother)
                      ''m_data.iedge(pvertex) == m_data.iedge(pother)'' s)
                   (\<lambda>_ s.
                      if fst (is_occupied D (m_data s) pvertex iedge)
                      then and_then
                             (CGAL_assertion False
                                ''TODO: TWO PVERTICES SNEAK ON THE OTHER SIDE EVEN WHEN WE HAVE A POLYGON!'' s)
                             (\<lambda>_ s. Returns False s)
                      else Returns False s))
           (\<lambda>stop s.
              and_then (CGAL_assertion (k_of (m_data s) pface \<ge> 1) ''m_data.k(pface) >= 1'' s)
                (\<lambda>_ s.
                   if stop
                   then Returns () (two_vertices_stop D K ev_time pvertex pother iedge s)
                   else Returns ()
                          (two_vertices_continue D K ev_time pvertex pother iedge pface s))))"

definition apply_single_vertex_crossing ::
  "('x data) data_structure \<Rightarrow> kernel \<Rightarrow> FT \<Rightarrow> pvertex \<Rightarrow> iedge \<Rightarrow> pface \<Rightarrow>
   'x data ksr \<Rightarrow> (unit, 'x data ksr) result" where
  "apply_single_vertex_crossing D K ev_time pvertex iedge pface s =
     (let s = remove_events pvertex s;
          (collision, bbox_reached) = collision_occured D (m_data s) pvertex iedge;
          (stop, s) =
             (if bbox_reached then (True, s)
              else if collision \<and> k_of (m_data s) pface = 1 then (True, s)
              else if collision \<and> k_of (m_data s) pface > 1 then (False, decrement_k pface s)
              else (False, s))
      in and_then (CGAL_assertion (k_of (m_data s) pface \<ge> 1) ''m_data.k(pface) >= 1'' s)
           (\<lambda>_ s.
              if stop
              then Returns () (single_vertex_stops D K ev_time pvertex iedge s)
              else Returns () (single_vertex_continues D K ev_time pvertex iedge pface s)))"

text \<open>
  The \<open>for\<close> loop over \<open>{prev, next}\<close> of the \<open>pvertex_to_iedge\<close> branch. It returns
  \<open>done\<close>: \<open>true\<close> when a neighbour was paired with the event vertex (the loop then
  breaks), \<open>false\<close> when the list is used up.
\<close>

fun apply_pvertex_to_iedge_loop ::
  "('x data) data_structure \<Rightarrow> kernel \<Rightarrow> FT \<Rightarrow> pvertex \<Rightarrow> iedge \<Rightarrow> pface \<Rightarrow> segment_2 \<Rightarrow>
   pvertex list \<Rightarrow> 'x data ksr \<Rightarrow> (bool, 'x data ksr) result" where
  "apply_pvertex_to_iedge_loop D K ev_time pvertex iedge pface seg_edge [] s = Returns False s"
| "apply_pvertex_to_iedge_loop D K ev_time pvertex iedge pface seg_edge (pother # rest) s =
     (let seg = (point_2 D (m_data s) pother ev_time, point_2 D (m_data s) pvertex ev_time)
      in and_then (CGAL_assertion (squared_length seg \<noteq> 0) ''seg.squared_length() != 0'' s)
           (\<lambda>_ s.
              let both_are_free =
                    (\<not> (iedge_of D (m_data s) pvertex \<noteq> null_iedge D \<or>
                        iedge_of D (m_data s) pother \<noteq> null_iedge D))
              in if both_are_free \<and> are_parallel seg seg_edge
                 then and_then
                        (apply_two_vertices_crossing D K ev_time pvertex pother iedge pface s)
                        (\<lambda>_ s. Returns True s)
                 else apply_pvertex_to_iedge_loop D K ev_time pvertex iedge pface seg_edge rest s))"

definition apply_pvertex_to_iedge ::
  "('x data) data_structure \<Rightarrow> kernel \<Rightarrow> FT \<Rightarrow> pvertex \<Rightarrow> iedge \<Rightarrow> 'x data ksr \<Rightarrow>
   (unit, 'x data ksr) result" where
  "apply_pvertex_to_iedge D K ev_time pvertex iedge s =
     (let prev = prev_pvertex D (m_data s) pvertex;
          nxt = next_pvertex D (m_data s) pvertex;
          pface = pface_of_pvertex D (m_data s) pvertex;
          seg_edge = segment_2 D (m_data s) (fst pvertex) iedge
      in and_then
           (apply_pvertex_to_iedge_loop D K ev_time pvertex iedge pface seg_edge [prev, nxt] s)
           (\<lambda>done s.
              if \<not> done then apply_single_vertex_crossing D K ev_time pvertex iedge pface s
              else Returns () s))"

text \<open>
  In the \<open>pvertex_to_ivertex\<close> branch the bound \<open>pvertices.size() - 1\<close> of the loop that
  removes events is computed on \<open>std::size_t\<close>: for an empty vector it wraps around and
  the loop reads \<open>pvertices[1]\<close> out of range, which the language leaves undefined.
\<close>

definition apply_pvertex_to_ivertex ::
  "('x data) data_structure \<Rightarrow> kernel \<Rightarrow> FT \<Rightarrow> pvertex \<Rightarrow> ivertex \<Rightarrow> 'x data ksr \<Rightarrow>
   (unit, 'x data ksr) result" where
  "apply_pvertex_to_ivertex D K ev_time pvertex ivertex s =
     (let pvertices = pvertices_around_ivertex D (m_data s) pvertex ivertex
      in if pvertices = [] then Halts (Undefined_behaviour ''pvertices[1]'') s
         else
           (let s = fold (\<lambda>i. remove_events (pvertices ! i)) [1 ..< length pvertices - 1] s;
                ((new_pvertices, crossed), d) =
                   merge_pvertices_on_ivertex D (m_min_time s) (m_max_time s) pvertices ivertex
                     (m_data s);
                s = s\<lparr>m_data := d\<rparr>;
                s = fold (\<lambda>iedge. remove_events_of_iedge iedge (fst pvertex)) crossed s
            in and_then
                 (CGAL_assertion (length new_pvertices > 0) ''new_pvertices.size() > 0'' s)
                 (\<lambda>_ s. Returns () (compute_events_of_vertices D K ev_time new_pvertices s))))"

fun apply_event ::
  "('x data) data_structure \<Rightarrow> kernel \<Rightarrow> nat \<Rightarrow> event \<Rightarrow> 'x data ksr \<Rightarrow>
   (unit, 'x data ksr) result" where
  "apply_event D K k (PVertex_to_pvertex c pvertex pother t) s =
     apply_pvertex_to_pvertex D K t pvertex pother s"
| "apply_event D K k (PVertex_to_iedge c pvertex iedge t) s =
     apply_pvertex_to_iedge D K t pvertex iedge s"
| "apply_event D K k (PVertex_to_ivertex c pvertex ivertex t) s =
     apply_pvertex_to_ivertex D K t pvertex ivertex s"

subsection \<open>\<open>run\<close>\<close>

text \<open>
  The loop of \<open>run\<close> goes on while the queue is not empty, and applying an event may
  push new ones: it takes fuel, one unit for each event applied.
\<close>

fun run ::
  "('x data) data_structure \<Rightarrow> kernel \<Rightarrow> nat \<Rightarrow> nat \<Rightarrow> 'x data ksr \<Rightarrow> (unit, 'x data ksr) result"
  where
  "run D K 0 k s = (if m_queue s = [] then Returns () s else Out_of_fuel)"
| "run D K (Suc fuel) k s =
     (if m_queue s = [] then Returns () s
      else
        (let (ev, q) = pop (m_queue s);
             s = s\<lparr>m_queue := q\<rparr>;
             current_time = event_time ev;
             s = s\<lparr>m_data := update_positions D current_time (m_data s)\<rparr>
         in and_then (apply_event D K k ev s)
              (\<lambda>_ s. and_then (check_integrity D K s) (\<lambda>_ s. run D K fuel k s))))"

subsection \<open>\<open>make_polygons_intersection_free\<close>\<close>

text \<open>
  \<open>map_p2vv\<close> is a \<open>std::map\<close> from index sets to pairs of intersection vertices: an
  association list with strictly increasing keys, in the lexicographic order that
  \<open>std::set\<close> is compared with. An insertion under a key that is present does not insert
  and the source then overwrites the second vertex of the entry found.
\<close>

fun map_p2vv_insert ::
  "ivertex \<Rightarrow> idx_set \<Rightarrow> ivertex \<Rightarrow> (idx_set \<times> ivertex \<times> ivertex) list \<Rightarrow>
   (idx_set \<times> ivertex \<times> ivertex) list" where
  "map_p2vv_insert null key ivertex [] = [(key, ivertex, null)]"
| "map_p2vv_insert null key ivertex ((key', vv) # rest) =
     (if key = key' then (key', fst vv, ivertex) # rest
      else if key < key' then (key, ivertex, null) # (key', vv) # rest
      else (key', vv) # map_p2vv_insert null key ivertex rest)"

definition create_transverse_lines ::
  "'d data_structure \<Rightarrow> 'd \<Rightarrow> (idx_set \<times> ivertex \<times> ivertex) list" where
  "create_transverse_lines D d =
     fold (\<lambda>ivertex map_p2vv.
             let key = intersected_planes_of_ivertex D d ivertex False
             in if length key < 2 then map_p2vv
                else map_p2vv_insert (null_ivertex D) key ivertex map_p2vv)
          (ivertices D d) []"

text \<open>
  \<open>std::set_intersection\<close> hands the common indices to the callback in increasing
  order, and the callback keeps the last one; \<open>KSR::no_element()\<close> is \<open>None\<close>.
\<close>

definition common_plane_idx :: "idx_set \<Rightarrow> idx_set \<Rightarrow> nat option" where
  "common_plane_idx set_a set_b =
     (let common = filter (\<lambda>idx. idx \<in> set set_b) set_a
      in if common = [] then None else Some (last common))"

definition intersect_lines ::
  "'d data_structure \<Rightarrow> kernel \<Rightarrow> idx_set \<times> ivertex \<times> ivertex \<Rightarrow> idx_set \<times> ivertex \<times> ivertex \<Rightarrow>
   idx_set list \<times> ivertex list \<times> 'd \<Rightarrow> idx_set list \<times> ivertex list \<times> 'd" where
  "intersect_lines D K it_a it_b acc =
     (case acc of (done, crossed_vertices, d) \<Rightarrow>
        (case common_plane_idx (fst it_a) (fst it_b) of
           None \<Rightarrow> acc
         | Some common \<Rightarrow>
             (let union_set = fold insort_insert (fst it_b) (fst it_a)
              in if union_set \<in> set done then acc
                 else
                   (case intersection K
                           (to_2d_segment D d common
                              (point_3 D d (fst (snd it_a)), point_3 D d (snd (snd it_a))))
                           (to_2d_segment D d common
                              (point_3 D d (fst (snd it_b)), point_3 D d (snd (snd it_b)))) of
                      None \<Rightarrow> (union_set # done, crossed_vertices, d)
                    | Some inter_point \<Rightarrow>
                        (case add_ivertex D (to_3d D d common inter_point) union_set d of
                           (ivertex, d') \<Rightarrow>
                             (union_set # done, crossed_vertices @ [ivertex], d'))))))"

definition find_crossed_vertices ::
  "'d data_structure \<Rightarrow> kernel \<Rightarrow> (idx_set \<times> ivertex \<times> ivertex) list \<Rightarrow>
   idx_set \<times> ivertex \<times> ivertex \<Rightarrow> (idx_set \<times> ivertex list) list \<times> 'd \<Rightarrow>
   (idx_set \<times> ivertex list) list \<times> 'd" where
  "find_crossed_vertices D K map_p2vv it_a acc =
     (case acc of (todo, d) \<Rightarrow>
        (case fold (intersect_lines D K it_a) map_p2vv ([], [fst (snd it_a)], d) of
           (done, crossed_vertices, d') \<Rightarrow>
             (todo @ [(fst it_a, crossed_vertices @ [snd (snd it_a)])], d')))"

text \<open>
  The last loop runs the polygon splitter on every support plane; its bound is read
  again at every turn on the data structure the splitter has left, so it takes fuel.
\<close>

fun split_support_planes_from :: "'d data_structure \<Rightarrow> nat \<Rightarrow> nat \<Rightarrow> 'd \<Rightarrow> 'd option" where
  "split_support_planes_from D 0 i d =
     (if i < number_of_support_planes D d then None else Some d)"
| "split_support_planes_from D (Suc fuel) i d =
     (if i < number_of_support_planes D d
      then split_support_planes_from D fuel (Suc i) (split_support_plane D i d)
      else Some d)"

definition make_polygons_intersection_free ::
  "'d data_structure \<Rightarrow> kernel \<Rightarrow> nat \<Rightarrow> 'd \<Rightarrow> 'd option" where
  "make_polygons_intersection_free D K fuel d =
     (let map_p2vv = create_transverse_lines D d;
          (todo, d) = fold (find_crossed_vertices D K map_p2vv) map_p2vv ([], d);
          d = fold (\<lambda>t. add_iedge D (fst t) (snd t)) todo d
      in split_support_planes_from D fuel 0 d)"

text \<open>A step on \<open>m_data\<close> that may run out of fuel, as a step of the driver.\<close>

definition on_data :: "('d \<Rightarrow> 'd option) \<Rightarrow> 'd ksr \<Rightarrow> (unit, 'd ksr) result" where
  "on_data f s = (case f (m_data s) of None \<Rightarrow> Out_of_fuel | Some d \<Rightarrow> Returns () (s\<lparr>m_data := d\<rparr>))"

subsection \<open>The bounding box\<close>

text \<open>
  Modelled from the spec: \<open>CGAL::Bbox_3\<close>, \<open>CGAL::bbox_3\<close>, \<open>CGAL::centroid\<close> and the
  scaling and translation of \<open>Aff_transformation_3\<close>, none of which is in src, taken as
  exact. A \<open>Bbox_3\<close> is \<open>None\<close> when it is empty (as the default-constructed one is) and
  \<open>(xmin, ymin, zmin, xmax, ymax, zmax)\<close> otherwise. The corners of an empty box are
  not numbers of \<open>FT\<close>: asking for them is an undefined read.
\<close>

type_synonym bbox_3 = "(FT \<times> FT \<times> FT \<times> FT \<times> FT \<times> FT) option"

fun bbox_3_plus :: "bbox_3 \<Rightarrow> bbox_3 \<Rightarrow> bbox_3" where
  "bbox_3_plus None b = b"
| "bbox_3_plus (Some a) None = Some a"
| "bbox_3_plus (Some (x0, y0, z0, x1, y1, z1)) (Some (u0, v0, w0, u1, v1, w1)) =
     Some (min x0 u0, min y0 v0, min z0 w0, max x1 u1, max y1 v1, max z1 w1)"

definition bbox_3_of_points :: "point_3 list \<Rightarrow> bbox_3" where
  "bbox_3_of_points polygon =
     fold (\<lambda>(x, y, z) box. bbox_3_plus box (Some (x, y, z, x, y, z))) polygon None"

definition centroid :: "point_3 list \<Rightarrow> point_3" where
  "centroid ps =
     (let n = of_nat (length ps)
      in (sum_list (map fst ps) / n,
          sum_list (map (\<lambda>p. fst (snd p)) ps) / n,
          sum_list (map (\<lambda>p. snd (snd p)) ps) / n))"

fun scale_point :: "FT \<Rightarrow> point_3 \<Rightarrow> point_3" where
  "scale_point c (x, y, z) = (c * x, c * y, c * z)"

fun translate_point :: "vector_3 \<Rightarrow> point_3 \<Rightarrow> point_3" where
  "translate_point (vx, vy, vz) (x, y, z) = (x + vx, y + vy, z + vz)"

definition initialize_optimal_box :: "point_3 list list \<Rightarrow> 's \<Rightarrow> (point_3 list, 's) result" where
  "initialize_optimal_box input_range s =
     and_then (CGAL_assertion False ''TODO: IMPLEMENT THE ORIENTED OPTIMAL BBOX!'' s)
       (\<lambda>_ s. Returns [] s)"

definition initialize_axis_aligned_box ::
  "point_3 list list \<Rightarrow> 's \<Rightarrow> (point_3 list, 's) result" where
  "initialize_axis_aligned_box input_range s =
     (case fold (\<lambda>polygon box. bbox_3_plus box (bbox_3_of_points polygon)) input_range None of
        None \<Rightarrow> Halts (Undefined_behaviour ''corners of an empty Bbox_3'') s
      | Some (xmin, ymin, zmin, xmax, ymax, zmax) \<Rightarrow>
          Returns [(xmin, ymin, zmin), (xmax, ymin, zmin), (xmax, ymax, zmin), (xmin, ymax, zmin),
                   (xmin, ymax, zmax), (xmin, ymin, zmax), (xmax, ymin, zmax), (xmax, ymax, zmax)] s)"

definition enlarge_bounding_box :: "FT \<Rightarrow> point_3 list \<Rightarrow> 's \<Rightarrow> (point_3 list, 's) result" where
  "enlarge_bounding_box enlarge_bbox_ratio bbox s =
     and_then
       (CGAL_assertion (enlarge_bbox_ratio > 1)
          ''TODO: HANDLE THE CASE ENLARGE_BBOX_RATIO = FT(1)'' s)
       (\<lambda>_ s.
          let a = centroid bbox;
              bbox = map (scale_point enlarge_bbox_ratio) bbox;
              b = centroid bbox;
              bbox = map (translate_point (construct_vector_3 b a)) bbox
          in Returns bbox s)"

text \<open>
  \<open>create_bounding_box\<close> returns the two output parameters \<open>bbox\<close> and \<open>time_step\<close>.
  The assertion \<open>bbox.size() == 8\<close> is on the size of a \<open>std::array\<close> of eight points,
  which is eight whatever the array holds.
\<close>

definition create_bounding_box ::
  "kernel \<Rightarrow> point_3 list list \<Rightarrow> FT \<Rightarrow> bool \<Rightarrow> 's \<Rightarrow> (point_3 list \<times> FT, 's) result" where
  "create_bounding_box K input_range enlarge_bbox_ratio reorient s =
     and_then
       (if reorient then initialize_optimal_box input_range s
        else initialize_axis_aligned_box input_range s)
       (\<lambda>bbox s.
          let time_step = distance K (hd bbox) (last bbox);
              time_step = time_step / 50
          in and_then (enlarge_bounding_box enlarge_bbox_ratio bbox s)
               (\<lambda>bbox s. Returns (bbox, time_step) s))"

definition bounding_box_to_polygons :: "point_3 list \<Rightarrow> point_3 list list" where
  "bounding_box_to_polygons bbox =
     [[bbox ! 0, bbox ! 1, bbox ! 2, bbox ! 3],
      [bbox ! 0, bbox ! 1, bbox ! 6, bbox ! 5],
      [bbox ! 1, bbox ! 2, bbox ! 7, bbox ! 6],
      [bbox ! 2, bbox ! 3, bbox ! 4, bbox ! 7],
      [bbox ! 3, bbox ! 0, bbox ! 5, bbox ! 4],
      [bbox ! 5, bbox ! 6, bbox ! 7, bbox ! 4]]"

subsection \<open>\<open>add_polygons\<close>\<close>

definition add_bbox_faces ::
  "'d data_structure \<Rightarrow> point_3 list list \<Rightarrow> 'd ksr \<Rightarrow> (unit, 'd ksr) result" where
  "add_bbox_faces D bbox_faces s =
     (let s = s\<lparr>m_data := fold (add_bbox_polygon D) bbox_faces (m_data s)\<rparr>
      in and_then
           (CGAL_assertion (number_of_support_planes D (m_data s) = 6)
              ''m_data.number_of_support_planes() == 6'' s)
           (\<lambda>_ s. and_then
              (CGAL_assertion (length (ivertices D (m_data s)) = 8)
                 ''m_data.ivertices().size() == 8'' s)
              (\<lambda>_ s. CGAL_assertion (length (iedges_all D (m_data s)) = 12)
                 ''m_data.iedges().size() == 12'' s)))"

definition add_input_polygons ::
  "'d data_structure \<Rightarrow> point_3 list list \<Rightarrow> 'd ksr \<Rightarrow> (unit, 'd ksr) result" where
  "add_input_polygons D input_range s =
     (let s = s\<lparr>m_data :=
                 fold (\<lambda>(polygon, input_index). add_input_polygon D polygon input_index)
                   (zip input_range [0 ..< length input_range]) (m_data s)\<rparr>
      in CGAL_assertion (number_of_support_planes D (m_data s) > 6)
           ''m_data.number_of_support_planes() > 6'' s)"

definition add_polygons ::
  "'d data_structure \<Rightarrow> point_3 list list \<Rightarrow> point_3 list list \<Rightarrow> 'd ksr \<Rightarrow>
   (unit, 'd ksr) result" where
  "add_polygons D input_range bbox_faces s =
     (let s = s\<lparr>m_data := reserve D (length input_range) (m_data s)\<rparr>
      in and_then (add_bbox_faces D bbox_faces s) (\<lambda>_ s. add_input_polygons D input_range s))"

subsection \<open>\<open>partition\<close>\<close>

text \<open>
  \<open>partition_ksr\<close> is \<open>partition\<close>, whose name a function on lists has taken. The
  input range is the list of its polygons, as \<open>get(polygon_map, item)\<close> gives them.
  \<open>exit_process\<close> is the call of \<open>exit\<close>: it stops the process, so what follows it in
  \<open>partition\<close> is sequenced after a step that never returns. The loop
  \<open>while (initialize_queue())\<close> takes fuel, one unit for each time window, and hands
  \<open>run_fuel\<close> to each \<open>run\<close>.
\<close>

definition exit_process :: "nat \<Rightarrow> 's \<Rightarrow> (unit, 's) result" where
  "exit_process status s = Halts (Exit_process status) s"

fun propagate ::
  "('x data) data_structure \<Rightarrow> kernel \<Rightarrow> nat \<Rightarrow> nat \<Rightarrow> nat \<Rightarrow> FT \<Rightarrow> 'x data ksr \<Rightarrow>
   (unit, 'x data ksr) result" where
  "propagate D K run_fuel 0 k time_step s =
     (case initialize_queue D K s of
        (still_running, s) \<Rightarrow> if still_running then Out_of_fuel else Returns () s)"
| "propagate D K run_fuel (Suc fuel) k time_step s =
     (case initialize_queue D K s of
        (still_running, s) \<Rightarrow>
          if still_running
          then and_then (run D K run_fuel k s)
                 (\<lambda>_ s.
                    let s = s\<lparr>m_min_time := m_max_time s\<rparr>;
                        s = s\<lparr>m_max_time := m_max_time s + time_step\<rparr>
                    in and_then (check_integrity D K s)
                         (\<lambda>_ s. propagate D K run_fuel fuel k time_step s))
          else Returns () s)"

definition partition_ksr ::
  "('x data) data_structure \<Rightarrow> kernel \<Rightarrow> nat \<Rightarrow> point_3 list list \<Rightarrow> nat \<Rightarrow> FT \<Rightarrow> bool \<Rightarrow>
   'x data ksr \<Rightarrow> (bool, 'x data ksr) result" where
  "partition_ksr D K fuel input_range k enlarge_bbox_ratio reorient s =
     (if length input_range = 0 then Returns False s
      else if k = 0 then Returns False s
      else if enlarge_bbox_ratio < 1 then Returns False s
      else
        and_then (create_bounding_box K input_range enlarge_bbox_ratio reorient s)
          (\<lambda>(bbox, time_step) s.
        let bbox_faces = bounding_box_to_polygons bbox in
        and_then (add_polygons D input_range bbox_faces s) (\<lambda>_ s.
        and_then (check_integrity D K s) (\<lambda>_ s.
        and_then (on_data (make_polygons_intersection_free D K fuel) s) (\<lambda>_ s.
        and_then (check_integrity D K s) (\<lambda>_ s.
        and_then (on_data (set_k_intersections D fuel k) s) (\<lambda>_ s.
        let s = s\<lparr>m_data := check_bbox D (m_data s)\<rparr> in
        and_then (exit_process EXIT_SUCCESS s) (\<lambda>_ s.
        let s = s\<lparr>m_min_time := 0\<rparr>;
            s = s\<lparr>m_max_time := time_step\<rparr> in
        and_then
          (CGAL_assertion (m_min_time s \<ge> 0 \<and> m_max_time s \<ge> m_min_time s)
             ''m_min_time >= FT(0) && m_max_time >= m_min_time'' s) (\<lambda>_ s.
        and_then (propagate D K fuel fuel k time_step s) (\<lambda>_ s.
        and_then (check_integrity D K s) (\<lambda>_ s.
        Returns True s)))))))))))"

text \<open>
  \<open>window_untouched s s'\<close>: the queue and the two ends of the time window are in \<open>s'\<close> as
  they are in \<open>s\<close>. The statements of \<open>partition\<close> that follow the call of \<open>exit\<close> assign
  \<open>m_min_time\<close> and \<open>m_max_time\<close>, and \<open>run\<close> takes events from the queue.
\<close>

definition window_untouched :: "'d ksr \<Rightarrow> 'd ksr \<Rightarrow> bool" where
  "window_untouched s s' =
     (m_queue s' = m_queue s \<and> m_min_time s' = m_min_time s \<and> m_max_time s' = m_max_time s)"

subsection \<open>The two loops, observed after a number of turns\<close>



section \<open>Assumptions on the data structure\<close>

text \<open>
  \<open>set_k_intersections\<close> reads the number of support planes and the faces of a plane
  between its writes to \<open>m_data.k(pface)\<close>. That these two observers do not depend on
  the numbers written is a property of \<open>KSR_3::Data_structure\<close>, which is not in src; it
  is stated here and is a premise wherever it is used.
\<close>

definition planes_independent_of_k :: "('x data) data_structure \<Rightarrow> bool" where
  "planes_independent_of_k D =
     (\<forall>d table.
        number_of_support_planes D (d\<lparr>k_of := table\<rparr>) = number_of_support_planes D d \<and>
        pfaces_of_plane D (d\<lparr>k_of := table\<rparr>) = pfaces_of_plane D d)"




text \<open>
  Modelled from the spec: a frozen vertex is pinned where it is (at the bounding box, or
  merged away) and does not move, while the speed of a vertex is the magnitude of its
  direction of motion. So the speed of a frozen vertex is zero. \<open>is_frozen\<close> and
  \<open>speed\<close> are member functions of \<open>KSR_3::Data_structure\<close> (not in src); that they
  agree in this way is a premise wherever it is used.
\<close>

definition frozen_vertices_stand_still :: "'d data_structure \<Rightarrow> bool" where
  "frozen_vertices_stand_still D =
     (\<forall>d pvertex. is_frozen D d pvertex \<longrightarrow> speed D d pvertex = 0)"

section \<open>A small instance, for evaluating the driver on concrete inputs\<close>

text \<open>
  \<open>sample_structure\<close> is an instance of the interface of the data structure whose only
  content is the number of its support planes: every plane has one vertex and one face
  with local id \<open>0\<close>, the eight vertices and twelve edges of the box exist once six
  planes do, no vertex is frozen or constrained, and every vertex moves along the first
  axis with speed one. The null descriptors are the largest \<open>std::size_t\<close>. The examples
  below change single fields of it. \<open>sample_kernel\<close> finds no intersection of two
  segments; its square root is exact on \<open>0\<close>, \<open>1\<close>, \<open>4\<close> and \<open>9\<close> and one Heron step
  from \<open>1\<close> otherwise.
\<close>

definition no_element :: nat where
  "no_element = 18446744073709551615"

definition sample_structure :: "(nat data) data_structure" where
  "sample_structure =
     \<lparr>number_of_support_planes = core,
      is_mesh_valid = (\<lambda>d i. True),
      iedges_of_plane = (\<lambda>d i. []),
      iedges_all = (\<lambda>d. if 6 \<le> core d then [0 ..< 12] else []),
      intersected_planes = (\<lambda>d iedge. []),
      intersected_planes_of_ivertex = (\<lambda>d ivertex keep_bbox. []),
      ivertices = (\<lambda>d. if 6 \<le> core d then [0 ..< 8] else []),
      str = (\<lambda>d iedge. ''IEdge''),
      pfaces_of_plane = (\<lambda>d i. [(i, 0)]),
      pvertices_of_plane = (\<lambda>d i. [(i, 0)]),
      null_pvertex = (no_element, no_element),
      null_ivertex = no_element,
      null_iedge = no_element,
      is_frozen = (\<lambda>d pvertex. False),
      is_active = (\<lambda>d pvertex. True),
      is_active_ivertex = (\<lambda>d ivertex. True),
      is_active_iedge = (\<lambda>d iedge. True),
      has_iedge = (\<lambda>d pvertex. False),
      iedge_of = (\<lambda>d pvertex. no_element),
      prev_and_next = (\<lambda>d pvertex. ((fst pvertex, 1), (fst pvertex, 2))),
      border_prev_and_next = (\<lambda>d pvertex. ((fst pvertex, 1), (fst pvertex, 2))),
      prev_pvertex = (\<lambda>d pvertex. (fst pvertex, 1)),
      next_pvertex = (\<lambda>d pvertex. (fst pvertex, 2)),
      pface_of_pvertex = (\<lambda>d pvertex. (fst pvertex, 0)),
      speed = (\<lambda>d pvertex. 1),
      current_time = (\<lambda>d. 0),
      source = (\<lambda>d iedge. 0),
      target = (\<lambda>d iedge. 1),
      point_2 = (\<lambda>d pvertex t. (t, 0)),
      point_3 = (\<lambda>d ivertex. (0, 0, 0)),
      segment_2 = (\<lambda>d i iedge. ((0, 0), (1, 0))),
      to_2d = (\<lambda>d i ivertex. (of_nat ivertex, 0)),
      to_2d_segment = (\<lambda>d i seg. ((0, 0), (1, 0))),
      to_3d = (\<lambda>d i p. (fst p, snd p, 0)),
      collision_occured = (\<lambda>d pvertex iedge. (False, False)),
      is_occupied = (\<lambda>d pvertex iedge. (False, False)),
      pvertices_around_ivertex = (\<lambda>d pvertex ivertex. [pvertex]),
      reserve = (\<lambda>n d. d),
      add_bbox_polygon = (\<lambda>polygon d. d\<lparr>core := core d + 1\<rparr>),
      add_input_polygon = (\<lambda>polygon input_index d. d\<lparr>core := core d + 1\<rparr>),
      add_ivertex = (\<lambda>p planes d. (0, d)),
      add_iedge = (\<lambda>planes vertices d. d),
      split_support_plane = (\<lambda>i d. d),
      check_bbox = (\<lambda>d. d),
      update_positions = (\<lambda>t d. d),
      deactivate = (\<lambda>pvertex d. d),
      activate = (\<lambda>pvertex d. d),
      set_last_event_time = (\<lambda>pvertex t d. d),
      transfer_vertex = (\<lambda>pvertex pother d. (False, d)),
      crop_polygon = (\<lambda>pvertex iedge d. (pvertex, d)),
      crop_polygon_pair = (\<lambda>pvertex pother iedge d. d),
      propagate_polygon = (\<lambda>k pvertex iedge d. ((pvertex, pvertex, pvertex), d)),
      propagate_polygon_pair = (\<lambda>k pvertex pother iedge d. ((pvertex, pother), d)),
      merge_pvertices_on_ivertex = (\<lambda>t0 t1 pvertices ivertex d. ((pvertices, []), d))\<rparr>"

definition sample_sqrt :: "FT \<Rightarrow> FT" where
  "sample_sqrt x =
     (if x = 0 then 0 else if x = 1 then 1 else if x = 4 then 2 else if x = 9 then 3
      else (1 + x) / 2)"

definition sample_kernel :: kernel where
  "sample_kernel =
     \<lparr>approximate_sqrt = sample_sqrt,
      intersection = (\<lambda>seg1 seg2. None),
      distance = (\<lambda>p q. sample_sqrt (let v = construct_vector_3 p q in wdot v v)),
      to_string = (\<lambda>n. replicate n (CHR ''I''))\<rparr>"

text \<open>
  \<open>sample_state n\<close> is a driver whose data structure has \<open>n\<close> support planes and a
  crossing budget of one on every face, with an empty queue and the time window
  \<open>[0, 1]\<close>; \<open>m_verbose\<close> is off.
\<close>

definition sample_state :: "nat \<Rightarrow> nat data ksr" where
  "sample_state n =
     \<lparr>m_data = \<lparr>k_of = (\<lambda>pface. 1), core = n\<rparr>, m_queue = [], m_min_time = 0, m_max_time = 1,
      m_verbose = False\<rparr>"

text \<open>The sample structure with every vertex frozen.\<close>

definition frozen_structure :: "(nat data) data_structure" where
  "frozen_structure = sample_structure\<lparr>is_frozen := (\<lambda>d pvertex. True)\<rparr>"

text \<open>
  The sample structure with every vertex constrained to the intersection edge \<open>3\<close>, and
  a driver state with two pending events: the vertices \<open>(0, 0)\<close> and \<open>(0, 1)\<close> meet at
  time \<open>1/2\<close>, the vertex \<open>(0, 3)\<close> reaches the intersection vertex \<open>1\<close> at time \<open>3/4\<close>.
\<close>

definition constrained_structure :: "(nat data) data_structure" where
  "constrained_structure =
     sample_structure\<lparr>has_iedge := (\<lambda>d pvertex. True), iedge_of := (\<lambda>d pvertex. 3)\<rparr>"

definition meeting_state :: "nat data ksr" where
  "meeting_state =
     (sample_state 1)\<lparr>m_queue :=
        [PVertex_to_pvertex True (0, 0) (0, 1) (1 / 2), PVertex_to_ivertex True (0, 3) 1 (3 / 4)]\<rparr>"

text \<open>
  \<open>recording_structure\<close> is the sample structure with one support plane and no
  intersection edge or vertex listed, in which \<open>core\<close> does not count the planes but
  records the calls of \<open>crop_polygon\<close>, each adding one, and of \<open>propagate_polygon\<close>,
  each adding one hundred. The vertex \<open>(0, 0)\<close> is at the origin, its neighbours
  \<open>(0, 1)\<close> and \<open>(0, 2)\<close> are below and above it, so that both boundary edges are
  perpendicular to the intersection edges, which lie on the first axis. A collision has
  occurred at the intersection edge \<open>3\<close> and the bounding box is reached at the edge
  \<open>2\<close>, and neither at any other edge. \<open>recording_state k\<close> is a driver on it with no
  call recorded, the number \<open>k\<close> on every face, an empty queue and the time window
  \<open>[0, 1]\<close>.
\<close>

definition recording_structure :: "(nat data) data_structure" where
  "recording_structure =
     sample_structure\<lparr>number_of_support_planes := (\<lambda>d. 1),
                       iedges_all := (\<lambda>d. []),
                       ivertices := (\<lambda>d. []),
                       point_2 := (\<lambda>d pvertex t.
                          if pvertex = (0, 1) then (0, - 1)
                          else if pvertex = (0, 2) then (0, 1) else (0, 0)),
                       collision_occured := (\<lambda>d pvertex iedge. (iedge = 3, iedge = 2)),
                       crop_polygon := (\<lambda>pvertex iedge d. (pvertex, d\<lparr>core := core d + 1\<rparr>)),
                       propagate_polygon := (\<lambda>k pvertex iedge d.
                          ((pvertex, pvertex, pvertex), d\<lparr>core := core d + 100\<rparr>))\<rparr>"

definition recording_state :: "nat \<Rightarrow> nat data ksr" where
  "recording_state k =
     \<lparr>m_data = \<lparr>k_of = (\<lambda>pface. k), core = 0\<rparr>, m_queue = [], m_min_time = 0, m_max_time = 1,
      m_verbose = False\<rparr>"

text \<open>
  The sample structure with the vertex \<open>(0, 0)\<close> at the origin between its neighbours
  \<open>(0, 1)\<close> at \<open>(-1, 0)\<close> and \<open>(0, 2)\<close> at \<open>(1, 0)\<close>: both boundary edges lie on the
  first axis, as the intersection edges of the sample do. The previous neighbour
  \<open>(0, 1)\<close> is constrained to the intersection edge \<open>5\<close>; the other vertices are free.
\<close>

definition collinear_structure :: "(nat data) data_structure" where
  "collinear_structure =
     sample_structure\<lparr>iedge_of := (\<lambda>d pvertex. if pvertex = (0, 1) then 5 else no_element),
                       point_2 := (\<lambda>d pvertex t.
                          if pvertex = (0, 1) then (- 1, 0)
                          else if pvertex = (0, 2) then (1, 0) else (0, 0))\<rparr>"

text \<open>
  The same three collinear vertices, with the event vertex \<open>(0, 0)\<close> constrained to the
  intersection edge \<open>5\<close> and both neighbours free.
\<close>

definition sliding_structure :: "(nat data) data_structure" where
  "sliding_structure =
     collinear_structure\<lparr>iedge_of := (\<lambda>d pvertex. if pvertex = (0, 0) then 5 else no_element)\<rparr>"

section \<open>Properties of the point--triangle distance\<close>

text \<open>
  Claim C8, as stated, at the collinear triangle \<open>(0,0,0), (1,0,0), (2,0,0)\<close> and the point
  \<open>(0,0,1)\<close>: the normal is the null vector, the three edge distances are \<open>1\<close>, \<open>2\<close>
  and \<open>1\<close>, and the function returns \<open>1\<close>, their minimum, not their sum \<open>4\<close>.
\<close>

theorem squared_distance_collinear_not_sum:
  "wcross (construct_vector_3 (0, 0, 0) (1, 0, 0)) (construct_vector_3 (0, 0, 0) (2, 0, 0))
     = NULL_VECTOR \<and>
   squared_distance (0, 0, 1) ((0, 0, 0), (1, 0, 0), (2, 0, 0)) = 1 \<and>
   squared_distance_point_segment (0, 0, 1) ((2, 0, 0), (0, 0, 0)) +
   squared_distance_point_segment (0, 0, 1) ((1, 0, 0), (2, 0, 0)) +
   squared_distance_point_segment (0, 0, 1) ((0, 0, 0), (1, 0, 0)) = 4"
  by (simp add: squared_distance_def squared_distance_internal_def
      squared_distance_to_triangle_def squared_distance_point_segment_def
      NULL_VECTOR_def Let_def)

text \<open>
  Claim C8, amended: for a triangle whose normal is the null vector the plane projection
  is not used; the result is the minimum of the squared distances from the point to the
  three edges \<open>(t2, t0)\<close>, \<open>(t1, t2)\<close> and \<open>(t0, t1)\<close>, the \<open>inside\<close> flag is left as it
  was, and a value is returned (the function has no error result).
\<close>

theorem squared_distance_degenerate_triangle:
  assumes "wcross (construct_vector_3 t0 t1) (construct_vector_3 t0 t2) = NULL_VECTOR"
  shows "squared_distance pt (t0, t1, t2) =
           min (min (squared_distance_point_segment pt (t2, t0))
                    (squared_distance_point_segment pt (t1, t2)))
               (squared_distance_point_segment pt (t0, t1))
         \<and> squared_distance_triangle_point (t0, t1, t2) pt = squared_distance pt (t0, t1, t2)
         \<and> squared_distance_to_triangle pt t0 t1 t2 inside =
             (squared_distance pt (t0, t1, t2), inside)"
  using assms
  by (simp add: squared_distance_def squared_distance_triangle_point_def
      squared_distance_internal_def squared_distance_to_triangle_def Let_def)

theorem squared_distance_degenerate_triangle_witness:
  "squared_distance (0, 0, 1) ((0, 0, 0), (1, 0, 0), (2, 0, 0)) =
     min (min (squared_distance_point_segment (0, 0, 1) ((2, 0, 0), (0, 0, 0)))
              (squared_distance_point_segment (0, 0, 1) ((1, 0, 0), (2, 0, 0))))
         (squared_distance_point_segment (0, 0, 1) ((0, 0, 0), (1, 0, 0)))"
proof -
  have h: "wcross (construct_vector_3 (0, 0, 0) (1, 0, 0))
             (construct_vector_3 (0, 0, 0) (2, 0, 0)) = NULL_VECTOR"
    by (simp add: NULL_VECTOR_def)
  show ?thesis
    using squared_distance_degenerate_triangle [OF h, of "(0, 0, 1)" False] by simp
qed

section \<open>Properties of the event computation\<close>

subsection \<open>Frame lemmas: computing events writes the queue only\<close>

lemma fold_keeps:
  assumes "\<And>x s. g (f x s) = g s"
  shows "g (fold f xs s) = g s"
  by (induction xs arbitrary: s) (simp_all add: assms)

lemma test_pother_data: "m_data (test_pother D K pvertex sv pother s) = m_data s"
  by (simp add: test_pother_def Let_def split: option.splits)

lemma test_ivertex_data: "m_data (test_ivertex D K pvertex sv ivertex s) = m_data s"
  by (simp add: test_ivertex_def Let_def)

lemma test_iedge_data:
  "m_data (test_iedge D K pvertex sv prev nxt iedges segments_2 segment_bboxes j s) = m_data s"
  by (simp add: test_iedge_def Let_def split: option.splits)

lemma compute_events_of_vertex_data:
  "m_data (snd (compute_events_of_vertex D K pvertex iedges segments_2 segment_bboxes s)) = m_data s"
  by (simp add: compute_events_of_vertex_def Let_def test_pother_data test_ivertex_data
      fold_keeps [where g = m_data, OF test_iedge_data] split: prod.splits)

lemma compute_events_of_vertex_found:
  "fst (compute_events_of_vertex D K pvertex iedges segments_2 segment_bboxes s) =
     (\<not> is_frozen D (m_data s) pvertex)"
  by (simp add: compute_events_of_vertex_def Let_def split: prod.splits)

lemma compute_events_of_vertex_frozen:
  "is_frozen D (m_data s) pvertex \<Longrightarrow>
   compute_events_of_vertex D K pvertex iedges segments_2 segment_bboxes s = (False, s)"
  by (simp add: compute_events_of_vertex_def)

lemma initialize_queue_vertices:
  "fold (initialize_queue_vertex D K search) pvs (b, s) = (b', s') \<Longrightarrow>
   m_data s' = m_data s \<and>
   b' = (b \<or> (\<exists>pv \<in> set pvs. \<not> is_frozen D (m_data s) pv))"
proof (induction pvs arbitrary: b s)
  case Nil
  then show ?case by simp
next
  case (Cons pv pvs)
  obtain iedges segments_2 segment_bboxes where search: "search = (iedges, segments_2, segment_bboxes)"
    by (cases search) auto
  obtain found s1 where step:
    "compute_events_of_vertex D K pv iedges segments_2 segment_bboxes s = (found, s1)"
    by (cases "compute_events_of_vertex D K pv iedges segments_2 segment_bboxes s") auto
  have found: "found = (\<not> is_frozen D (m_data s) pv)"
    using compute_events_of_vertex_found [of D K pv iedges segments_2 segment_bboxes s] step by simp
  have data: "m_data s1 = m_data s"
    using compute_events_of_vertex_data [of D K pv iedges segments_2 segment_bboxes s] step by simp
  have "initialize_queue_vertex D K search pv (b, s) = (if found then True else b, s1)"
    using search step by (simp add: initialize_queue_vertex_def)
  then have "fold (initialize_queue_vertex D K search) pvs (if found then True else b, s1) = (b', s')"
    using Cons.prems by simp
  from Cons.IH [OF this] show ?case
    using found data by auto
qed

lemma initialize_queue_planes:
  "fold (initialize_queue_plane D K) planes (b, s) = (b', s') \<Longrightarrow>
   m_data s' = m_data s \<and>
   b' = (b \<or> (\<exists>i \<in> set planes. \<exists>pv \<in> set (pvertices_of_plane D (m_data s) i).
                 \<not> is_frozen D (m_data s) pv))"
proof (induction planes arbitrary: b s)
  case Nil
  then show ?case by simp
next
  case (Cons i planes)
  obtain b1 s1 where step: "initialize_queue_plane D K i (b, s) = (b1, s1)"
    by (cases "initialize_queue_plane D K i (b, s)") auto
  then have "fold (initialize_queue_vertex D K (init_search_structures D (m_data s) i))
               (pvertices_of_plane D (m_data s) i) (b, s) = (b1, s1)"
    by (simp add: initialize_queue_plane_def Let_def)
  from initialize_queue_vertices [OF this]
  have one: "m_data s1 = m_data s"
    "b1 = (b \<or> (\<exists>pv \<in> set (pvertices_of_plane D (m_data s) i). \<not> is_frozen D (m_data s) pv))"
    by simp_all
  have "fold (initialize_queue_plane D K) planes (b1, s1) = (b', s')"
    using Cons.prems step by simp
  from Cons.IH [OF this] show ?case
    using one by auto
qed

lemma initialize_queue_vertices_frozen:
  "\<forall>pv \<in> set pvs. is_frozen D (m_data s) pv \<Longrightarrow>
   fold (initialize_queue_vertex D K search) pvs (b, s) = (b, s)"
  by (induction pvs) (auto simp: initialize_queue_vertex_def compute_events_of_vertex_frozen
      split: prod.splits)

lemma initialize_queue_plane_frozen:
  "\<forall>pv \<in> set (pvertices_of_plane D (m_data s) i). is_frozen D (m_data s) pv \<Longrightarrow>
   initialize_queue_plane D K i (b, s) = (b, s)"
  by (simp add: initialize_queue_plane_def Let_def initialize_queue_vertices_frozen)

lemma initialize_queue_planes_frozen:
  "\<forall>i \<in> set planes. \<forall>pv \<in> set (pvertices_of_plane D (m_data s) i). is_frozen D (m_data s) pv \<Longrightarrow>
   fold (initialize_queue_plane D K) planes (b, s) = (b, s)"
  by (induction planes) (simp_all add: initialize_queue_plane_frozen)

text \<open>
  Claim C10: for a frozen vertex \<open>compute_events_of_vertex\<close> returns \<open>false\<close> and
  leaves the whole state, the queue with it, as it was, whatever its neighbours and the
  intersection edges of its plane are. So the turn of \<open>initialize_queue\<close> for a
  support plane whose vertices are all frozen changes neither \<open>still_running\<close> nor the
  queue, and when the vertices of all planes are frozen \<open>initialize_queue\<close> returns
  \<open>false\<close> with the queue unchanged.
\<close>

theorem frozen_vertex_contributes_no_event:
  "(is_frozen D (m_data s) pvertex \<longrightarrow>
      compute_events_of_vertex D K pvertex iedges segments_2 segment_bboxes s = (False, s)) \<and>
   ((\<forall>pv \<in> set (pvertices_of_plane D (m_data s) i). is_frozen D (m_data s) pv) \<longrightarrow>
      initialize_queue_plane D K i (still_running, s) = (still_running, s)) \<and>
   ((\<forall>i < number_of_support_planes D (update_positions D (m_max_time s) (m_data s)).
       \<forall>pv \<in> set (pvertices_of_plane D (update_positions D (m_max_time s) (m_data s)) i).
          is_frozen D (update_positions D (m_max_time s) (m_data s)) pv) \<longrightarrow>
      fst (initialize_queue D K s) = False \<and>
      m_queue (snd (initialize_queue D K s)) = m_queue s)"
proof (intro conjI impI)
  assume "is_frozen D (m_data s) pvertex"
  then show "compute_events_of_vertex D K pvertex iedges segments_2 segment_bboxes s = (False, s)"
    by (rule compute_events_of_vertex_frozen)
next
  assume "\<forall>pv \<in> set (pvertices_of_plane D (m_data s) i). is_frozen D (m_data s) pv"
  then show "initialize_queue_plane D K i (still_running, s) = (still_running, s)"
    by (rule initialize_queue_plane_frozen)
next
  let ?d = "update_positions D (m_max_time s) (m_data s)"
  let ?s1 = "s\<lparr>m_data := ?d\<rparr>"
  assume all: "\<forall>i < number_of_support_planes D ?d.
      \<forall>pv \<in> set (pvertices_of_plane D ?d i). is_frozen D ?d pv"
  have "fold (initialize_queue_plane D K) [0 ..< number_of_support_planes D (m_data ?s1)]
          (False, ?s1) = (False, ?s1)"
    by (rule initialize_queue_planes_frozen) (use all in simp)
  then have iq: "initialize_queue D K s =
      (False, ?s1\<lparr>m_data := update_positions D (m_min_time ?s1) (m_data ?s1)\<rparr>)"
    by (simp add: initialize_queue_def Let_def)
  show "fst (initialize_queue D K s) = False" by (simp add: iq)
  show "m_queue (snd (initialize_queue D K s)) = m_queue s" by (simp add: iq)
qed



theorem frozen_vertex_contributes_no_event_witness:
  "compute_events_of_vertex frozen_structure sample_kernel (0, 0) [] [] [] (sample_state 1) =
     (False, sample_state 1) \<and>
   initialize_queue_plane frozen_structure sample_kernel 0 (False, sample_state 1) =
     (False, sample_state 1) \<and>
   fst (initialize_queue frozen_structure sample_kernel (sample_state 1)) = False \<and>
   m_queue (snd (initialize_queue frozen_structure sample_kernel (sample_state 1))) =
     m_queue (sample_state 1)"
  using frozen_vertex_contributes_no_event
    [of frozen_structure "sample_state 1" "(0, 0)" sample_kernel "[]" "[]" "[]" 0 False]
  by (simp add: frozen_structure_def)

subsection \<open>Sequencing and assertions\<close>

lemma and_then_Returns [simp]: "and_then (Returns a s) f = f a s"
  by (simp add: and_then_def)

lemma and_then_Halts [simp]: "and_then (Halts h s) f = Halts h s"
  by (simp add: and_then_def)

lemma and_then_Out_of_fuel [simp]: "and_then Out_of_fuel f = Out_of_fuel"
  by (simp add: and_then_def)

lemma CGAL_assertion_True [simp]: "c \<Longrightarrow> CGAL_assertion c msg s = Returns () s"
  by (simp add: CGAL_assertion_def)

lemma CGAL_assertion_False [simp]: "\<not> c \<Longrightarrow> CGAL_assertion c msg s = Halts (Assertion_failed msg) s"
  by (simp add: CGAL_assertion_def)

subsection \<open>What \<open>compute_events_of_vertex\<close> returns\<close>

text \<open>
  Claim C4, as stated, at the sample structure: the vertex \<open>(0, 0)\<close> is not frozen, no
  intersection edge is handed to \<open>compute_events_of_vertex\<close>, the call pushes no event
  (the queue is empty before and after), and it returns \<open>true\<close>.
\<close>

theorem unfrozen_vertex_without_event:
  "\<not> is_frozen sample_structure (m_data (sample_state 1)) (0, 0) \<and>
   fst (compute_events_of_vertex sample_structure sample_kernel (0, 0) [] [] [] (sample_state 1))
     = True \<and>
   m_queue (snd (compute_events_of_vertex sample_structure sample_kernel (0, 0) [] [] []
                   (sample_state 1))) = m_queue (sample_state 1) \<and>
   m_queue (sample_state 1) = []"
  by (simp add: compute_events_of_vertex_def sample_structure_def sample_state_def Let_def)

text \<open>
  Claim C4, amended: \<open>compute_events_of_vertex\<close> returns \<open>true\<close> if and only if the
  vertex is not frozen, whether or not an event was pushed. \<open>initialize_queue\<close> returns
  \<open>true\<close> if and only if some vertex of some support plane is not frozen (after the
  positions were moved to \<open>m_max_time\<close>), and the driver's loop over the time windows
  stops when it returns \<open>false\<close> and runs the queue and goes on when it returns \<open>true\<close>.
\<close>

theorem compute_events_of_vertex_returns_unfrozen:
  "fst (compute_events_of_vertex D K pvertex iedges segments_2 segment_bboxes s) =
     (\<not> is_frozen D (m_data s) pvertex) \<and>
   fst (initialize_queue D K s) =
     (\<exists>i < number_of_support_planes D (update_positions D (m_max_time s) (m_data s)).
        \<exists>pv \<in> set (pvertices_of_plane D (update_positions D (m_max_time s) (m_data s)) i).
          \<not> is_frozen D (update_positions D (m_max_time s) (m_data s)) pv) \<and>
   (\<not> fst (initialize_queue D K s) \<longrightarrow>
      propagate D K run_fuel fuel k time_step s = Returns () (snd (initialize_queue D K s))) \<and>
   (fst (initialize_queue D K s) \<longrightarrow>
      propagate D K run_fuel (Suc fuel) k time_step s =
        and_then (run D K run_fuel k (snd (initialize_queue D K s)))
          (\<lambda>_ s. and_then
             (check_integrity D K (s\<lparr>m_min_time := m_max_time s,
                                      m_max_time := m_max_time s + time_step\<rparr>))
             (\<lambda>_ s. propagate D K run_fuel fuel k time_step s)))"
proof (intro conjI impI)
  show "fst (compute_events_of_vertex D K pvertex iedges segments_2 segment_bboxes s) =
     (\<not> is_frozen D (m_data s) pvertex)"
    by (rule compute_events_of_vertex_found)
next
  let ?d = "update_positions D (m_max_time s) (m_data s)"
  let ?s1 = "s\<lparr>m_data := ?d\<rparr>"
  obtain b' s' where f: "fold (initialize_queue_plane D K)
      [0 ..< number_of_support_planes D (m_data ?s1)] (False, ?s1) = (b', s')"
    by (cases "fold (initialize_queue_plane D K)
      [0 ..< number_of_support_planes D (m_data ?s1)] (False, ?s1)") auto
  from initialize_queue_planes [OF f]
  have "b' = (\<exists>i < number_of_support_planes D ?d.
        \<exists>pv \<in> set (pvertices_of_plane D ?d i). \<not> is_frozen D ?d pv)"
    by auto
  moreover have "fst (initialize_queue D K s) = b'"
    using f by (simp add: initialize_queue_def Let_def)
  ultimately show "fst (initialize_queue D K s) =
     (\<exists>i < number_of_support_planes D ?d.
        \<exists>pv \<in> set (pvertices_of_plane D ?d i). \<not> is_frozen D ?d pv)"
    by simp
next
  assume h: "\<not> fst (initialize_queue D K s)"
  obtain b s' where iq: "initialize_queue D K s = (b, s')"
    by (cases "initialize_queue D K s") auto
  with h have "\<not> b" by simp
  with iq show "propagate D K run_fuel fuel k time_step s =
      Returns () (snd (initialize_queue D K s))"
    by (cases fuel) simp_all
next
  assume h: "fst (initialize_queue D K s)"
  obtain b s' where iq: "initialize_queue D K s = (b, s')"
    by (cases "initialize_queue D K s") auto
  with h have "b" by simp
  with iq show "propagate D K run_fuel (Suc fuel) k time_step s =
        and_then (run D K run_fuel k (snd (initialize_queue D K s)))
          (\<lambda>_ s. and_then
             (check_integrity D K (s\<lparr>m_min_time := m_max_time s,
                                      m_max_time := m_max_time s + time_step\<rparr>))
             (\<lambda>_ s. propagate D K run_fuel fuel k time_step s))"
    by (simp add: Let_def)
qed

theorem compute_events_of_vertex_returns_unfrozen_witness:
  "fst (initialize_queue sample_structure sample_kernel (sample_state 1)) = True \<and>
   fst (initialize_queue frozen_structure sample_kernel (sample_state 1)) = False \<and>
   propagate frozen_structure sample_kernel 0 0 1 1 (sample_state 1) =
     Returns () (sample_state 1)"
proof -
  have a: "fst (initialize_queue sample_structure sample_kernel (sample_state 1)) = True"
    using compute_events_of_vertex_returns_unfrozen
      [of sample_structure sample_kernel "(0, 0)" "[]" "[]" "[]" "sample_state 1" 0 0 1 1]
    by (simp add: sample_structure_def sample_state_def)
  have b: "fst (initialize_queue frozen_structure sample_kernel (sample_state 1)) = False"
    using compute_events_of_vertex_returns_unfrozen
      [of frozen_structure sample_kernel "(0, 0)" "[]" "[]" "[]" "sample_state 1" 0 0 1 1]
    by (simp add: frozen_structure_def)
  have c: "snd (initialize_queue frozen_structure sample_kernel (sample_state 1)) = sample_state 1"
    by (simp add: initialize_queue_def Let_def frozen_structure_def sample_structure_def
        sample_state_def initialize_queue_plane_def init_search_structures_def
        initialize_queue_vertex_def compute_events_of_vertex_def)
  have "propagate frozen_structure sample_kernel 0 0 1 1 (sample_state 1) =
     Returns () (snd (initialize_queue frozen_structure sample_kernel (sample_state 1)))"
    using compute_events_of_vertex_returns_unfrozen
      [of frozen_structure sample_kernel "(0, 0)" "[]" "[]" "[]" "sample_state 1" 0 0 1 1] b
    by blast
  with a b c show ?thesis by simp
qed

section \<open>Properties of \<open>apply\<close> and \<open>partition\<close>\<close>

lemma remove_events_data [simp]: "m_data (remove_events pvertex s) = m_data s"
  by (simp add: remove_events_def)

lemma k_of_set_k [simp]: "k_of (set_k f v d) g = (if g = f then v else k_of d g)"
  by (simp add: set_k_def)

lemma core_set_k [simp]: "core (set_k f v d) = core d"
  by (simp add: set_k_def)

lemma decrement_k_value [simp]:
  "k_of (m_data (decrement_k pface s)) pface = k_of (m_data s) pface - 1"
  by (simp add: decrement_k_def)

text \<open>
  Claim C2: called with an empty input range, with \<open>k = 0\<close> or with
  \<open>enlarge_bbox_ratio < 1\<close>, \<open>partition\<close> returns \<open>false\<close> and leaves the state of the
  driver as it was; the number of support planes is the same before and after the call,
  and it is zero after the call on a fresh instance whose data structure has none.
\<close>

theorem partition_rejects_invalid_input:
  assumes "input_range = [] \<or> k = 0 \<or> enlarge_bbox_ratio < 1"
  shows "partition_ksr D K fuel input_range k enlarge_bbox_ratio reorient s = Returns False s \<and>
         (case partition_ksr D K fuel input_range k enlarge_bbox_ratio reorient s of
            Returns b s' \<Rightarrow>
              number_of_support_planes D (m_data s') = number_of_support_planes D (m_data s)
          | Halts h s' \<Rightarrow> False
          | Out_of_fuel \<Rightarrow> False) \<and>
         (number_of_support_planes D fresh = 0 \<longrightarrow>
            (case partition_ksr D K fuel input_range k enlarge_bbox_ratio reorient
                    (Kinetic_shape_reconstruction_3 fresh verbose) of
               Returns b s' \<Rightarrow> \<not> b \<and> number_of_support_planes D (m_data s') = 0
             | Halts h s' \<Rightarrow> False
             | Out_of_fuel \<Rightarrow> False))"
  using assms by (auto simp: partition_ksr_def Kinetic_shape_reconstruction_3_def)

theorem partition_rejects_invalid_input_witness:
  "partition_ksr sample_structure sample_kernel 0 [[(0, 0, 0), (1, 1, 1)]] 0 (11 / 10) False
     (Kinetic_shape_reconstruction_3 \<lparr>k_of = (\<lambda>pface. 0), core = 0\<rparr> True) =
   Returns False (Kinetic_shape_reconstruction_3 \<lparr>k_of = (\<lambda>pface. 0), core = 0\<rparr> True) \<and>
   number_of_support_planes sample_structure
     (m_data (Kinetic_shape_reconstruction_3 \<lparr>k_of = (\<lambda>pface. 0), core = (0::nat)\<rparr> True)) = 0"
proof -
  have h: "[[(0, 0, 0), (1, 1, 1)]] = ([] :: point_3 list list) \<or> (0::nat) = 0 \<or> (11 / 10 :: FT) < 1"
    by simp
  show ?thesis
    using partition_rejects_invalid_input [OF h, of sample_structure sample_kernel 0 False
        "Kinetic_shape_reconstruction_3 \<lparr>k_of = (\<lambda>pface. 0), core = 0\<rparr> True"]
    by (simp add: sample_structure_def Kinetic_shape_reconstruction_3_def)
qed

text \<open>
  Claim C7: a \<open>pvertex_to_pvertex\<close> event whose two vertices are both constrained fails
  the assertion of the unimplemented branch. The state it stops in differs from the state
  before only by the queue, which has lost the pending events of the two vertices; the
  data structure is the one \<open>apply\<close> was called with. \<open>run\<close> stops with it: the
  reconstruction is aborted.
\<close>

theorem two_constrained_vertices_meet_is_fatal:
  "(has_iedge D (m_data s) pvertex \<and> has_iedge D (m_data s) pother \<longrightarrow>
      apply_event D K k (PVertex_to_pvertex c pvertex pother t) s =
        Halts (Assertion_failed ''TODO: ADD CASE TWO CONSTRAINED PVERTICES MEET!'')
          (s\<lparr>m_queue := erase_vertex_events pother (erase_vertex_events pvertex (m_queue s))\<rparr>)) \<and>
   (m_queue s \<noteq> [] \<and> pop (m_queue s) = (PVertex_to_pvertex c pvertex pother t, q) \<and>
    has_iedge D (update_positions D t (m_data s)) pvertex \<and>
    has_iedge D (update_positions D t (m_data s)) pother \<longrightarrow>
      run D K (Suc fuel) k s =
        Halts (Assertion_failed ''TODO: ADD CASE TWO CONSTRAINED PVERTICES MEET!'')
          (s\<lparr>m_queue := erase_vertex_events pother (erase_vertex_events pvertex q),
              m_data := update_positions D t (m_data s)\<rparr>))"
  by (simp add: apply_pvertex_to_pvertex_def remove_events_def Let_def)



lemma sample_structure_fields:
  "update_positions sample_structure t d = d"
  "is_frozen sample_structure d pvertex = False"
  "has_iedge sample_structure d pvertex = False"
  "collision_occured sample_structure d pvertex iedge = (False, False)"
  "number_of_support_planes sample_structure d = core d"
  "pvertices_of_plane sample_structure d i = [(i, 0)]"
  "iedges_of_plane sample_structure d i = []"
  by (simp_all add: sample_structure_def)

lemma sample_state_fields:
  "k_of (m_data (sample_state n)) pface = 1"
  "m_queue (sample_state n) = []"
  "remove_events pvertex (sample_state n) = sample_state n"
  by (simp_all add: sample_state_def remove_events_def erase_vertex_events_def)

theorem two_constrained_vertices_meet_is_fatal_witness:
  "apply_event constrained_structure sample_kernel 1
     (PVertex_to_pvertex True (0, 0) (0, 1) (1 / 2)) meeting_state =
     Halts (Assertion_failed ''TODO: ADD CASE TWO CONSTRAINED PVERTICES MEET!'')
       (meeting_state\<lparr>m_queue := [PVertex_to_ivertex True (0, 3) 1 (3 / 4)]\<rparr>) \<and>
   run constrained_structure sample_kernel (Suc 0) 1 meeting_state =
     Halts (Assertion_failed ''TODO: ADD CASE TWO CONSTRAINED PVERTICES MEET!'')
       (meeting_state\<lparr>m_queue := [PVertex_to_ivertex True (0, 3) 1 (3 / 4)]\<rparr>)"
proof -
  have c: "has_iedge constrained_structure d pvertex" for d pvertex
    by (simp add: constrained_structure_def)
  have u: "update_positions constrained_structure t d = d" for t d
    by (simp add: constrained_structure_def sample_structure_fields)
  have q: "m_queue meeting_state =
      [PVertex_to_pvertex True (0, 0) (0, 1) (1 / 2), PVertex_to_ivertex True (0, 3) 1 (3 / 4)]"
    by (simp add: meeting_state_def)
  have p: "pop (m_queue meeting_state) =
      (PVertex_to_pvertex True (0, 0) (0, 1) (1 / 2), [PVertex_to_ivertex True (0, 3) 1 (3 / 4)])"
    by (simp add: q pop_def Let_def)
  have ne: "m_queue meeting_state \<noteq> []"
    by (simp add: q)
  have e: "erase_vertex_events (0, 1) (erase_vertex_events (0, 0) (m_queue meeting_state)) =
      [PVertex_to_ivertex True (0, 3) 1 (3 / 4)]"
    "erase_vertex_events (0, 1)
       (erase_vertex_events (0, 0) [PVertex_to_ivertex True (0, 3) 1 (3 / 4)]) =
      [PVertex_to_ivertex True (0, 3) 1 (3 / 4)]"
    by (simp_all add: q erase_vertex_events_def)
  note main = two_constrained_vertices_meet_is_fatal
      [of constrained_structure meeting_state "(0, 0)" "(0, 1)" sample_kernel 1 True "1 / 2"
          "[PVertex_to_ivertex True (0, 3) 1 (3 / 4)]" 0]
  have a: "apply_event constrained_structure sample_kernel 1
             (PVertex_to_pvertex True (0, 0) (0, 1) (1 / 2)) meeting_state =
           Halts (Assertion_failed ''TODO: ADD CASE TWO CONSTRAINED PVERTICES MEET!'')
             (meeting_state\<lparr>m_queue :=
                erase_vertex_events (0, 1) (erase_vertex_events (0, 0) (m_queue meeting_state))\<rparr>)"
    using main c by blast
  have b: "run constrained_structure sample_kernel (Suc 0) 1 meeting_state =
           Halts (Assertion_failed ''TODO: ADD CASE TWO CONSTRAINED PVERTICES MEET!'')
             (meeting_state\<lparr>m_queue :=
                erase_vertex_events (0, 1)
                  (erase_vertex_events (0, 0) [PVertex_to_ivertex True (0, 3) 1 (3 / 4)]),
                m_data := update_positions constrained_structure (1 / 2) (m_data meeting_state)\<rparr>)"
    using main c p ne by blast
  show ?thesis
    unfolding a b e u by simp
qed

subsection \<open>The stop/continue policy of a single-vertex crossing\<close>

lemma recording_structure_fields:
  "collision_occured recording_structure d pvertex iedge = (iedge = 3, iedge = 2)"
  "crop_polygon recording_structure pvertex iedge d = (pvertex, d\<lparr>core := core d + 1\<rparr>)"
  "propagate_polygon recording_structure k pvertex iedge d =
     ((pvertex, pvertex, pvertex), d\<lparr>core := core d + 100\<rparr>)"
  "current_time recording_structure d = 0"
  "update_positions recording_structure t d = d"
  "iedges_of_plane recording_structure d i = []"
  "deactivate recording_structure pvertex d = d"
  "activate recording_structure pvertex d = d"
  "set_last_event_time recording_structure pvertex t d = d"
  "is_frozen recording_structure d pvertex = False"
  "has_iedge recording_structure d pvertex = False"
  by (simp_all add: recording_structure_def sample_structure_def)

lemma recording_compute_events_of_vertices:
  "compute_events_of_vertices recording_structure K t pvertices s = s\<lparr>m_min_time := 0\<rparr>"
proof -
  have v: "compute_events_of_vertex recording_structure K pvertex [] [] [] s' = (True, s')"
    for pvertex s'
    by (simp add: compute_events_of_vertex_def recording_structure_fields)
  have f: "fold (\<lambda>pvertex s.
                  snd (compute_events_of_vertex recording_structure K pvertex [] [] [] s))
                 pvs s' = s'" for pvs s'
    by (induction pvs arbitrary: s') (simp_all add: v)
  have g: "fold (deactivate recording_structure) pvs d = d"
     "fold (activate recording_structure) pvs d = d" for pvs d
    by (induction pvs arbitrary: d) (simp_all add: recording_structure_fields)
  show ?thesis
    by (simp add: compute_events_of_vertices_def init_search_structures_def
        recording_structure_fields f g Let_def)
qed

lemma recording_state_fields:
  "remove_events pvertex (recording_state k) = recording_state k"
  "remove_events_of_iedge iedge i (s\<lparr>m_queue := []\<rparr>) = s\<lparr>m_queue := []\<rparr>"
  "m_data (recording_state k) = \<lparr>k_of = (\<lambda>pface. k), core = 0\<rparr>"
  by (simp_all add: recording_state_def remove_events_def erase_vertex_events_def
      remove_events_of_iedge_def erase_vertex_events_of_iedge_def)

lemma recording_geometry:
  "prev_pvertex recording_structure d pvertex = (fst pvertex, 1)"
  "next_pvertex recording_structure d pvertex = (fst pvertex, 2)"
  "pface_of_pvertex recording_structure d pvertex = (fst pvertex, 0)"
  "segment_2 recording_structure d i iedge = ((0, 0), (1, 0))"
  "null_iedge recording_structure = no_element"
  "iedge_of recording_structure d pvertex = no_element"
  "point_2 recording_structure d pvertex t =
     (if pvertex = (0, 1) then (0, - 1) else if pvertex = (0, 2) then (0, 1) else (0, 0))"
  by (simp_all add: recording_structure_def sample_structure_def)

lemma perpendicular_edges:
  "\<not> are_parallel ((0, - 1), (0, 0)) ((0, 0), (1, 0))"
  "\<not> are_parallel ((0, 1), (0, 0)) ((0, 0), (1, 0))"
  "squared_length ((0, - 1), (0, 0)) \<noteq> 0"
  "squared_length ((0, 1), (0, 0)) \<noteq> 0"
  by (simp_all add: are_parallel_def squared_length_def squared_distance_2_def)

text \<open>
  Claim C3, as stated, at a face with \<open>k(pface) = 0\<close> and an edge where the bounding box is
  reached: the polygon is not stopped by \<open>crop_polygon\<close>. The assertion
  \<open>m_data.k(pface) >= 1\<close> fails and the process stops in the state the block was entered
  in, where no call of \<open>crop_polygon\<close> is recorded. So does \<open>apply\<close> on the event, which
  it handles by this block, the boundary edges of the vertex not being parallel to the
  intersection edge.
\<close>

theorem box_reached_without_budget_fails_assertion:
  "snd (collision_occured recording_structure (m_data (recording_state 0)) (0, 0) 2) \<and>
   k_of (m_data (recording_state 0)) (0, 0) = 0 \<and>
   apply_single_vertex_crossing recording_structure sample_kernel (1 / 2) (0, 0) 2 (0, 0)
     (recording_state 0) =
     Halts (Assertion_failed ''m_data.k(pface) >= 1'') (recording_state 0) \<and>
   apply_event recording_structure sample_kernel 2 (PVertex_to_iedge False (0, 0) 2 (1 / 2))
     (recording_state 0) =
     Halts (Assertion_failed ''m_data.k(pface) >= 1'') (recording_state 0) \<and>
   core (m_data (recording_state 0)) = 0"
  by (simp add: apply_pvertex_to_iedge_def Let_def recording_geometry perpendicular_edges
      apply_single_vertex_crossing_def recording_structure_fields recording_state_fields)

text \<open>
  Claim C3, amended: the block of \<open>apply\<close> that handles a single-vertex
  \<open>pvertex_to_iedge\<close> event first removes the pending events of the vertex. On a face
  with \<open>k(pface) \<ge> 1\<close> it then follows the policy of the claim. If the bounding box has
  been reached the polygon stops: \<open>crop_polygon\<close> is called and \<open>propagate_polygon\<close> is
  not. Otherwise, if a collision has occurred and \<open>k(pface) = 1\<close>, the polygon stops in
  the same way. Otherwise, if a collision has occurred and \<open>k(pface) > 1\<close>, \<open>k(pface)\<close> is
  decremented by exactly one and the polygon continues: \<open>propagate_polygon\<close> is called
  with the decremented number, and \<open>crop_polygon\<close> is not. Otherwise the polygon continues
  with \<open>k(pface)\<close> as it was. In each case the events of the edge on this plane are then
  removed and the events of the vertices returned by the call are computed. On a face
  with \<open>k(pface) < 1\<close> none of this happens, whether or not the bounding box has been
  reached: the assertion \<open>m_data.k(pface) >= 1\<close> fails.
\<close>

theorem single_vertex_stop_or_continue:
  "apply_single_vertex_crossing D K t pvertex iedge pface s =
     (let s0 = remove_events pvertex s;
          (collision, bbox_reached) = collision_occured D (m_data s) pvertex iedge;
          k = k_of (m_data s) pface;
          stops = (\<lambda>s. let (pvnew, d) = crop_polygon D pvertex iedge (m_data s)
                        in Returns ()
                             (compute_events_of_vertices D K t [pvertex, pvnew]
                                (remove_events_of_iedge iedge (fst pvertex) (s\<lparr>m_data := d\<rparr>))));
          continues = (\<lambda>s. let ((pv0, pv1, pv2), d) =
                                  propagate_polygon D (k_of (m_data s) pface) pvertex iedge (m_data s)
                            in Returns ()
                                 (compute_events_of_vertices D K t [pv0, pv1, pv2]
                                    (remove_events_of_iedge iedge (fst pvertex) (s\<lparr>m_data := d\<rparr>))))
      in if k < 1 then Halts (Assertion_failed ''m_data.k(pface) >= 1'') s0
         else if bbox_reached then stops s0
         else if collision \<and> k = 1 then stops s0
         else if collision \<and> k > 1
         then continues (s0\<lparr>m_data := set_k pface (k - 1) (m_data s0)\<rparr>)
         else continues s0)"
proof -
  obtain collision bbox_reached where
    cb: "collision_occured D (m_data s) pvertex iedge = (collision, bbox_reached)"
    by (cases "collision_occured D (m_data s) pvertex iedge") auto
  consider (zero) "k_of (m_data s) pface = 0"
    | (one) "k_of (m_data s) pface = 1"
    | (more) "1 < k_of (m_data s) pface"
    by linarith
  then show ?thesis
  proof cases
    case zero
    then show ?thesis
      by (cases bbox_reached) (simp_all add: apply_single_vertex_crossing_def cb)
  next
    case one
    then show ?thesis
      by (cases bbox_reached; cases collision)
        (simp_all add: apply_single_vertex_crossing_def cb single_vertex_stops_def
          single_vertex_continues_def split_beta)
  next
    case more
    then show ?thesis
      by (cases bbox_reached; cases collision)
        (simp_all add: apply_single_vertex_crossing_def cb single_vertex_stops_def
          single_vertex_continues_def decrement_k_def split_beta Let_def)
  qed
qed

theorem single_vertex_stop_or_continue_witness:
  "apply_single_vertex_crossing recording_structure sample_kernel (1 / 2) (0, 0) 2 (0, 0)
     (recording_state 3) =
     Returns () \<lparr>m_data = \<lparr>k_of = (\<lambda>pface. 3), core = 1\<rparr>, m_queue = [], m_min_time = 0,
                   m_max_time = 1, m_verbose = False\<rparr> \<and>
   apply_single_vertex_crossing recording_structure sample_kernel (1 / 2) (0, 0) 3 (0, 0)
     (recording_state 1) =
     Returns () \<lparr>m_data = \<lparr>k_of = (\<lambda>pface. 1), core = 1\<rparr>, m_queue = [], m_min_time = 0,
                   m_max_time = 1, m_verbose = False\<rparr> \<and>
   apply_single_vertex_crossing recording_structure sample_kernel (1 / 2) (0, 0) 3 (0, 0)
     (recording_state 3) =
     Returns () \<lparr>m_data = \<lparr>k_of = (\<lambda>pface. 3)((0, 0) := 2), core = 100\<rparr>, m_queue = [],
                   m_min_time = 0, m_max_time = 1, m_verbose = False\<rparr> \<and>
   apply_single_vertex_crossing recording_structure sample_kernel (1 / 2) (0, 0) 0 (0, 0)
     (recording_state 3) =
     Returns () \<lparr>m_data = \<lparr>k_of = (\<lambda>pface. 3), core = 100\<rparr>, m_queue = [], m_min_time = 0,
                   m_max_time = 1, m_verbose = False\<rparr> \<and>
   apply_single_vertex_crossing recording_structure sample_kernel (1 / 2) (0, 0) 3 (0, 0)
     (recording_state 0) =
     Halts (Assertion_failed ''m_data.k(pface) >= 1'') (recording_state 0)"
proof -
  have a: "apply_single_vertex_crossing recording_structure sample_kernel (1 / 2) (0, 0) 2 (0, 0)
     (recording_state 3) =
     Returns () \<lparr>m_data = \<lparr>k_of = (\<lambda>pface. 3), core = 1\<rparr>, m_queue = [], m_min_time = 0,
                   m_max_time = 1, m_verbose = False\<rparr>"
    using single_vertex_stop_or_continue
      [of recording_structure sample_kernel "1 / 2" "(0, 0)" 2 "(0, 0)" "recording_state 3"]
    by (simp add: recording_structure_fields recording_state_fields
        recording_compute_events_of_vertices)
       (simp add: recording_state_def remove_events_of_iedge_def erase_vertex_events_of_iedge_def)
  have b: "apply_single_vertex_crossing recording_structure sample_kernel (1 / 2) (0, 0) 3 (0, 0)
     (recording_state 1) =
     Returns () \<lparr>m_data = \<lparr>k_of = (\<lambda>pface. 1), core = 1\<rparr>, m_queue = [], m_min_time = 0,
                   m_max_time = 1, m_verbose = False\<rparr>"
    using single_vertex_stop_or_continue
      [of recording_structure sample_kernel "1 / 2" "(0, 0)" 3 "(0, 0)" "recording_state 1"]
    by (simp add: recording_structure_fields recording_state_fields
        recording_compute_events_of_vertices)
       (simp add: recording_state_def remove_events_of_iedge_def erase_vertex_events_of_iedge_def)
  have c: "apply_single_vertex_crossing recording_structure sample_kernel (1 / 2) (0, 0) 3 (0, 0)
     (recording_state 3) =
     Returns () \<lparr>m_data = \<lparr>k_of = (\<lambda>pface. 3)((0, 0) := 2), core = 100\<rparr>, m_queue = [],
                   m_min_time = 0, m_max_time = 1, m_verbose = False\<rparr>"
    using single_vertex_stop_or_continue
      [of recording_structure sample_kernel "1 / 2" "(0, 0)" 3 "(0, 0)" "recording_state 3"]
    by (simp add: recording_structure_fields recording_state_fields
        recording_compute_events_of_vertices set_k_def)
       (simp add: recording_state_def remove_events_of_iedge_def erase_vertex_events_of_iedge_def)
  have d: "apply_single_vertex_crossing recording_structure sample_kernel (1 / 2) (0, 0) 0 (0, 0)
     (recording_state 3) =
     Returns () \<lparr>m_data = \<lparr>k_of = (\<lambda>pface. 3), core = 100\<rparr>, m_queue = [], m_min_time = 0,
                   m_max_time = 1, m_verbose = False\<rparr>"
    using single_vertex_stop_or_continue
      [of recording_structure sample_kernel "1 / 2" "(0, 0)" 0 "(0, 0)" "recording_state 3"]
    by (simp add: recording_structure_fields recording_state_fields
        recording_compute_events_of_vertices)
       (simp add: recording_state_def remove_events_of_iedge_def erase_vertex_events_of_iedge_def)
  have e: "apply_single_vertex_crossing recording_structure sample_kernel (1 / 2) (0, 0) 3 (0, 0)
     (recording_state 0) =
     Halts (Assertion_failed ''m_data.k(pface) >= 1'') (recording_state 0)"
    using single_vertex_stop_or_continue
      [of recording_structure sample_kernel "1 / 2" "(0, 0)" 3 "(0, 0)" "recording_state 0"]
    by (simp add: recording_structure_fields recording_state_fields)
  from a b c d e show ?thesis by blast
qed

section \<open>Events of a constrained vertex\<close>

lemma test_pother_pushes:
  "m_data (test_pother D K pvertex sv pother s) = m_data s \<and>
   m_min_time (test_pother D K pvertex sv pother s) = m_min_time s \<and>
   m_max_time (test_pother D K pvertex sv pother s) = m_max_time s \<and>
   (\<exists>es. m_queue (test_pother D K pvertex sv pother s) = m_queue s @ es \<and>
         (\<forall>c pv iv t. PVertex_to_ivertex c pv iv t \<notin> set es))"
  by (auto simp: test_pother_def Let_def push_def split: option.splits)

lemma test_ivertex_pushes:
  "m_data (test_ivertex D K pvertex sv ivertex s) = m_data s \<and>
   m_min_time (test_ivertex D K pvertex sv ivertex s) = m_min_time s \<and>
   m_max_time (test_ivertex D K pvertex sv ivertex s) = m_max_time s \<and>
   m_queue (test_ivertex D K pvertex sv ivertex s) =
     m_queue s @
     (if is_active_ivertex D (m_data s) ivertex \<and>
         0 \<le> scalar_product (to_vector sv)
                (Vector_2 (fst sv) (to_2d D (m_data s) (fst pvertex) ivertex)) \<and>
         approximate_sqrt K
           (squared_distance_2 (fst sv) (to_2d D (m_data s) (fst pvertex) ivertex)) /
           speed D (m_data s) pvertex < m_max_time s - m_min_time s
      then [PVertex_to_ivertex True pvertex ivertex
              (m_min_time s +
               approximate_sqrt K
                 (squared_distance_2 (fst sv) (to_2d D (m_data s) (fst pvertex) ivertex)) /
                 speed D (m_data s) pvertex)]
      else [])"
  by (simp add: test_ivertex_def Let_def push_def not_less)

text \<open>
  Claim C6: for a constrained vertex, \<open>compute_events_of_vertex\<close> only appends to the
  queue, and among the events it appends there is a \<open>pvertex_to_ivertex\<close> event for an
  end vertex of the current intersection edge if and only if that vertex is active, the
  scalar product of the motion vector with the vector from the position at \<open>m_min_time\<close>
  to the end vertex is not negative, and the arrival time, the distance from the position
  at \<open>m_min_time\<close> divided by the speed, is less than \<open>m_max_time - m_min_time\<close>. Every
  \<open>pvertex_to_ivertex\<close> event appended is such an event, is flagged as constrained and
  has the time \<open>m_min_time\<close> plus the arrival time. The arrival time is a quotient by the
  speed of the vertex, so the statement is for a vertex whose speed is not zero. Such a
  vertex is not frozen, since frozen vertices stand still
  (\<open>frozen_vertices_stand_still\<close>), and \<open>compute_events_of_vertex\<close> goes past its first
  test.
\<close>

theorem constrained_vertex_ivertex_events:
  assumes "has_iedge D (m_data s) pvertex"
    and "frozen_vertices_stand_still D"
    and "speed D (m_data s) pvertex \<noteq> 0"
  shows
    "let d = m_data s;
         iedge = iedge_of D d pvertex;
         start = point_2 D d pvertex (m_min_time s);
         motion = to_vector (start, point_2 D d pvertex (m_max_time s));
         arrival = (\<lambda>ivertex.
            approximate_sqrt K (squared_distance_2 start (to_2d D d (fst pvertex) ivertex)) /
            speed D d pvertex);
         towards = (\<lambda>ivertex.
            0 \<le> scalar_product motion (Vector_2 start (to_2d D d (fst pvertex) ivertex)));
         queue = m_queue (snd (compute_events_of_vertex D K pvertex iedges segments_2
                                 segment_bboxes s));
         emitted = drop (length (m_queue s)) queue
     in queue = m_queue s @ emitted \<and>
        (\<forall>ivertex \<in> {source D d iedge, target D d iedge}.
           (\<exists>c t. PVertex_to_ivertex c pvertex ivertex t \<in> set emitted) =
           (is_active_ivertex D d ivertex \<and> towards ivertex \<and>
            arrival ivertex < m_max_time s - m_min_time s)) \<and>
        (\<forall>c pv ivertex t. PVertex_to_ivertex c pv ivertex t \<in> set emitted \<longrightarrow>
           c \<and> pv = pvertex \<and> ivertex \<in> {source D d iedge, target D d iedge} \<and>
           t = m_min_time s + arrival ivertex)"
proof -
  from assms(2,3) have moving: "\<not> is_frozen D (m_data s) pvertex"
    unfolding frozen_vertices_stand_still_def by (auto simp del: split_paired_All)
  define d where "d = m_data s"
  define sv where "sv = (point_2 D d pvertex (m_min_time s), point_2 D d pvertex (m_max_time s))"
  obtain prev nxt where pn: "prev_and_next D d pvertex = (prev, nxt)"
    by (cases "prev_and_next D d pvertex") auto
  define s1 where "s1 = test_pother D K pvertex sv nxt (test_pother D K pvertex sv prev s)"
  define src where "src = source D d (iedge_of D d pvertex)"
  define tgt where "tgt = target D d (iedge_of D d pvertex)"
  define s2 where "s2 = test_ivertex D K pvertex sv tgt (test_ivertex D K pvertex sv src s1)"
  have r: "compute_events_of_vertex D K pvertex iedges segments_2 segment_bboxes s = (True, s2)"
    using assms(1) moving pn
    by (simp add: compute_events_of_vertex_def Let_def d_def [symmetric] sv_def [symmetric]
        s1_def s2_def src_def tgt_def)
  obtain es0 where es0: "m_queue (test_pother D K pvertex sv prev s) = m_queue s @ es0"
      "\<forall>c pv iv t. PVertex_to_ivertex c pv iv t \<notin> set es0"
    using test_pother_pushes [of D K pvertex sv prev s] by blast
  obtain es1 where es1: "m_queue s1 = m_queue (test_pother D K pvertex sv prev s) @ es1"
      "\<forall>c pv iv t. PVertex_to_ivertex c pv iv t \<notin> set es1"
    unfolding s1_def
    using test_pother_pushes [of D K pvertex sv nxt "test_pother D K pvertex sv prev s"] by blast
  have f1: "m_data s1 = d" "m_min_time s1 = m_min_time s" "m_max_time s1 = m_max_time s"
    unfolding s1_def d_def by (simp_all add: test_pother_pushes)
  define arr where "arr = (\<lambda>ivertex.
      approximate_sqrt K (squared_distance_2 (fst sv) (to_2d D d (fst pvertex) ivertex)) /
        speed D d pvertex)"
  define cond where "cond = (\<lambda>ivertex.
      is_active_ivertex D d ivertex \<and>
      0 \<le> scalar_product (to_vector sv) (Vector_2 (fst sv) (to_2d D d (fst pvertex) ivertex)) \<and>
      arr ivertex < m_max_time s - m_min_time s)"
  define ev where "ev = (\<lambda>ivertex.
      if cond ivertex then [PVertex_to_ivertex True pvertex ivertex (m_min_time s + arr ivertex)]
      else [])"
  have step: "m_queue (test_ivertex D K pvertex sv ivertex s') = m_queue s' @ ev ivertex"
    if "m_data s' = d" "m_min_time s' = m_min_time s" "m_max_time s' = m_max_time s"
    for ivertex s'
    using that by (simp add: test_ivertex_pushes ev_def cond_def arr_def)
  have f3: "m_data (test_ivertex D K pvertex sv src s1) = d"
      "m_min_time (test_ivertex D K pvertex sv src s1) = m_min_time s"
      "m_max_time (test_ivertex D K pvertex sv src s1) = m_max_time s"
    by (simp_all add: test_ivertex_pushes f1)
  have q2: "m_queue s2 = m_queue s @ (es0 @ es1 @ ev src @ ev tgt)"
    unfolding s2_def
    by (simp add: step [OF f3] step [OF f1] es1(1) es0(1))
  have emitted: "drop (length (m_queue s)) (m_queue s2) = es0 @ es1 @ ev src @ ev tgt"
    by (simp add: q2)
  have ev_mem: "PVertex_to_ivertex c pv iv t \<in> set (ev x) \<longleftrightarrow>
      c \<and> pv = pvertex \<and> iv = x \<and> t = m_min_time s + arr x \<and> cond x" for c pv iv t x
    by (auto simp: ev_def)
  have mem: "PVertex_to_ivertex c pv iv t \<in> set (es0 @ es1 @ ev src @ ev tgt) \<longleftrightarrow>
      c \<and> pv = pvertex \<and> t = m_min_time s + arr iv \<and> cond iv \<and> (iv = src \<or> iv = tgt)"
    for c pv iv t
    using es0(2) [rule_format, of c pv iv t] es1(2) [rule_format, of c pv iv t]
    by (auto simp: ev_mem)
  have fsv: "fst sv = point_2 D d pvertex (m_min_time s)"
    by (simp add: sv_def)
  have one: "m_queue s2 = m_queue s @ drop (length (m_queue s)) (m_queue s2)"
    by (simp add: q2)
  have two: "\<forall>ivertex \<in> {src, tgt}.
      (\<exists>c t. PVertex_to_ivertex c pvertex ivertex t \<in> set (es0 @ es1 @ ev src @ ev tgt)) =
      cond ivertex"
    unfolding mem by auto
  have three: "\<forall>c pv ivertex t.
      PVertex_to_ivertex c pv ivertex t \<in> set (es0 @ es1 @ ev src @ ev tgt) \<longrightarrow>
      c \<and> pv = pvertex \<and> ivertex \<in> {src, tgt} \<and> t = m_min_time s + arr ivertex"
    unfolding mem by (auto simp del: split_paired_All)
  show ?thesis
    unfolding Let_def r snd_conv d_def [symmetric] src_def [symmetric] tgt_def [symmetric]
    using one two three
    unfolding emitted cond_def arr_def sv_def fst_conv
    by blast
qed


lemma constrained_structure_fields:
  "has_iedge constrained_structure d pvertex = True"
  "is_frozen constrained_structure d pvertex = False"
  "speed constrained_structure d pvertex = 1"
  "iedge_of constrained_structure d pvertex = 3"
  "source constrained_structure d iedge = 0"
  "target constrained_structure d iedge = 1"
  "is_active_ivertex constrained_structure d ivertex = True"
  "to_2d constrained_structure d i ivertex = (of_nat ivertex, 0)"
  "point_2 constrained_structure d pvertex t = (t, 0)"
  "prev_and_next constrained_structure d pvertex = ((fst pvertex, 1), (fst pvertex, 2))"
  "null_pvertex constrained_structure = (no_element, no_element)"
  "update_positions constrained_structure t d = d"
  by (simp_all add: constrained_structure_def sample_structure_def)

lemma sample_times:
  "m_min_time (sample_state n) = 0"
  "m_max_time (sample_state n) = 1"
  by (simp_all add: sample_state_def)

theorem constrained_vertex_ivertex_events_witness:
  "(\<exists>c t. PVertex_to_ivertex c (0, 0) 0 t \<in>
      set (m_queue (snd (compute_events_of_vertex constrained_structure sample_kernel (0, 0)
                           [] [] [] (sample_state 1))))) \<and>
   \<not> (\<exists>c t. PVertex_to_ivertex c (0, 0) 1 t \<in>
      set (m_queue (snd (compute_events_of_vertex constrained_structure sample_kernel (0, 0)
                           [] [] [] (sample_state 1)))))"
proof -
  have h: "has_iedge constrained_structure (m_data (sample_state 1)) (0, 0)"
    "frozen_vertices_stand_still constrained_structure"
    "speed constrained_structure (m_data (sample_state 1)) (0, 0) \<noteq> 0"
    by (simp_all add: constrained_structure_fields frozen_vertices_stand_still_def)
  have k: "approximate_sqrt sample_kernel 0 = 0" "approximate_sqrt sample_kernel 1 = 1"
    by (simp_all add: sample_kernel_def sample_sqrt_def)
  show ?thesis
    using constrained_vertex_ivertex_events [OF h, of sample_kernel "[]" "[]" "[]"]
    by (simp add: Let_def constrained_structure_fields sample_state_fields sample_times k
        to_vector_def squared_distance_2_def)
qed

section \<open>Which way a \<open>pvertex_to_iedge\<close> event is handled\<close>

lemma and_then_done_flag:
  "and_then (and_then r (\<lambda>_ s. Returns True s))
     (\<lambda>done s. if \<not> done then g s else Returns () s) = r"
  by (cases r) simp_all

lemma apply_pvertex_to_iedge_cases:
  "apply_pvertex_to_iedge D K t pvertex iedge s =
     (let d = m_data s;
          prev = prev_pvertex D d pvertex;
          nxt = next_pvertex D d pvertex;
          pface = pface_of_pvertex D d pvertex;
          seg_edge = segment_2 D d (fst pvertex) iedge;
          boundary = (\<lambda>pother. (point_2 D d pother t, point_2 D d pvertex t));
          free = (\<lambda>v. iedge_of D d v = null_iedge D);
          paired = (\<lambda>pother. free pvertex \<and> free pother \<and> are_parallel (boundary pother) seg_edge)
      in if squared_length (boundary prev) = 0
         then Halts (Assertion_failed ''seg.squared_length() != 0'') s
         else if paired prev
         then apply_two_vertices_crossing D K t pvertex prev iedge pface s
         else if squared_length (boundary nxt) = 0
         then Halts (Assertion_failed ''seg.squared_length() != 0'') s
         else if paired nxt
         then apply_two_vertices_crossing D K t pvertex nxt iedge pface s
         else apply_single_vertex_crossing D K t pvertex iedge pface s)"
  by (simp add: apply_pvertex_to_iedge_def Let_def and_then_done_flag)

text \<open>
  Claim C9, amended. \<open>apply\<close> handles a \<open>pvertex_to_iedge\<close> event by trying the two
  neighbours of the event vertex in the order \<open>prev\<close>, \<open>next\<close>. For each it first asserts
  that the boundary edge from the neighbour to the event vertex has a length other than
  zero. It enters the two-vertex block for the first neighbour such that the event vertex
  and that neighbour are both free and their boundary edge is parallel to the
  intersection edge, and then does not try the other neighbour nor run the single-vertex
  block. When the event vertex is constrained, or when each of the two neighbours is
  constrained or has a boundary edge that is not parallel, the event is handled by the
  single-vertex block, whether or not a boundary edge is parallel. A constrained \<open>prev\<close>
  does not by itself send the event to the single-vertex block: when \<open>next\<close> is free and
  its boundary edge is parallel, the two-vertex block is entered for \<open>next\<close>.
\<close>

theorem two_vertices_branch_entry:
  "let d = m_data s;
       prev = prev_pvertex D d pvertex;
       nxt = next_pvertex D d pvertex;
       pface = pface_of_pvertex D d pvertex;
       seg_edge = segment_2 D d (fst pvertex) iedge;
       boundary = (\<lambda>pother. (point_2 D d pother t, point_2 D d pvertex t));
       free = (\<lambda>v. iedge_of D d v = null_iedge D);
       paired = (\<lambda>pother. free pvertex \<and> free pother \<and> are_parallel (boundary pother) seg_edge);
       handled = apply_event D K k (PVertex_to_iedge c pvertex iedge t) s
   in handled =
        (if squared_length (boundary prev) = 0
         then Halts (Assertion_failed ''seg.squared_length() != 0'') s
         else if paired prev
         then apply_two_vertices_crossing D K t pvertex prev iedge pface s
         else if squared_length (boundary nxt) = 0
         then Halts (Assertion_failed ''seg.squared_length() != 0'') s
         else if paired nxt
         then apply_two_vertices_crossing D K t pvertex nxt iedge pface s
         else apply_single_vertex_crossing D K t pvertex iedge pface s) \<and>
      (squared_length (boundary prev) \<noteq> 0 \<and> squared_length (boundary nxt) \<noteq> 0 \<and>
       (\<not> free pvertex \<or>
        (\<not> free prev \<or> \<not> are_parallel (boundary prev) seg_edge) \<and>
        (\<not> free nxt \<or> \<not> are_parallel (boundary nxt) seg_edge)) \<longrightarrow>
         handled = apply_single_vertex_crossing D K t pvertex iedge pface s) \<and>
      (squared_length (boundary prev) \<noteq> 0 \<and> squared_length (boundary nxt) \<noteq> 0 \<and>
       \<not> free prev \<and> free pvertex \<and> free nxt \<and> are_parallel (boundary nxt) seg_edge \<longrightarrow>
         handled = apply_two_vertices_crossing D K t pvertex nxt iedge pface s)"
  unfolding apply_event.simps apply_pvertex_to_iedge_cases Let_def by auto


lemma collinear_structure_fields:
  "prev_pvertex collinear_structure d pvertex = (fst pvertex, 1)"
  "next_pvertex collinear_structure d pvertex = (fst pvertex, 2)"
  "pface_of_pvertex collinear_structure d pvertex = (fst pvertex, 0)"
  "segment_2 collinear_structure d i iedge = ((0, 0), (1, 0))"
  "null_iedge collinear_structure = no_element"
  "iedge_of collinear_structure d pvertex = (if pvertex = (0, 1) then 5 else no_element)"
  "point_2 collinear_structure d pvertex t =
     (if pvertex = (0, 1) then (- 1, 0) else if pvertex = (0, 2) then (1, 0) else (0, 0))"
  "collision_occured collinear_structure d pvertex iedge = (False, False)"
  "is_occupied collinear_structure d pvertex iedge = (False, False)"
  by (simp_all add: collinear_structure_def sample_structure_def)

lemma sliding_structure_fields:
  "prev_pvertex sliding_structure d pvertex = (fst pvertex, 1)"
  "next_pvertex sliding_structure d pvertex = (fst pvertex, 2)"
  "pface_of_pvertex sliding_structure d pvertex = (fst pvertex, 0)"
  "segment_2 sliding_structure d i iedge = ((0, 0), (1, 0))"
  "null_iedge sliding_structure = no_element"
  "iedge_of sliding_structure d pvertex = (if pvertex = (0, 0) then 5 else no_element)"
  "point_2 sliding_structure d pvertex t =
     (if pvertex = (0, 1) then (- 1, 0) else if pvertex = (0, 2) then (1, 0) else (0, 0))"
  by (simp_all add: sliding_structure_def collinear_structure_fields)

lemma collinear_edges_parallel:
  "are_parallel ((- 1, 0), (0, 0)) ((0, 0), (1, 0))"
  "are_parallel ((1, 0), (0, 0)) ((0, 0), (1, 0))"
  "squared_length ((- 1, 0), (0, 0)) \<noteq> 0"
  "squared_length ((1, 0), (0, 0)) \<noteq> 0"
  by (simp_all add: are_parallel_def squared_length_def squared_distance_2_def)

lemma collinear_two_vertices_crossing:
  "apply_two_vertices_crossing collinear_structure sample_kernel (1 / 2) (0, 0) (0, 2) 4 (0, 0)
     (sample_state 2) =
   Returns () (two_vertices_continue collinear_structure sample_kernel (1 / 2) (0, 0) (0, 2) 4 (0, 0)
                 (sample_state 2))"
  by (simp add: apply_two_vertices_crossing_def collinear_structure_fields sample_state_fields)

text \<open>
  Claim C9, as stated, at three collinear vertices: the previous neighbour is
  constrained and its boundary edge is parallel to the intersection edge, and the event
  is handled by the two-vertex block, for the event vertex and the next neighbour.
\<close>

theorem constrained_neighbour_other_neighbour_paired:
  "iedge_of collinear_structure (m_data (sample_state 2))
     (prev_pvertex collinear_structure (m_data (sample_state 2)) (0, 0)) \<noteq>
     null_iedge collinear_structure \<and>
   are_parallel
     (point_2 collinear_structure (m_data (sample_state 2))
        (prev_pvertex collinear_structure (m_data (sample_state 2)) (0, 0)) (1 / 2),
      point_2 collinear_structure (m_data (sample_state 2)) (0, 0) (1 / 2))
     (segment_2 collinear_structure (m_data (sample_state 2)) 0 4) \<and>
   apply_pvertex_to_iedge_loop collinear_structure sample_kernel (1 / 2) (0, 0) 4
     (pface_of_pvertex collinear_structure (m_data (sample_state 2)) (0, 0))
     (segment_2 collinear_structure (m_data (sample_state 2)) 0 4)
     [prev_pvertex collinear_structure (m_data (sample_state 2)) (0, 0),
      next_pvertex collinear_structure (m_data (sample_state 2)) (0, 0)] (sample_state 2) =
     Returns True (two_vertices_continue collinear_structure sample_kernel (1 / 2) (0, 0) (0, 2) 4
                     (0, 0) (sample_state 2)) \<and>
   apply_event collinear_structure sample_kernel 1 (PVertex_to_iedge False (0, 0) 4 (1 / 2))
     (sample_state 2) =
     Returns () (two_vertices_continue collinear_structure sample_kernel (1 / 2) (0, 0) (0, 2) 4
                   (0, 0) (sample_state 2))"
  by (simp add: apply_pvertex_to_iedge_def collinear_structure_fields collinear_edges_parallel
      no_element_def collinear_two_vertices_crossing Let_def)

theorem two_vertices_branch_entry_witness:
  "apply_event collinear_structure sample_kernel 1 (PVertex_to_iedge False (0, 0) 4 (1 / 2))
     (sample_state 2) =
     apply_two_vertices_crossing collinear_structure sample_kernel (1 / 2) (0, 0) (0, 2) 4 (0, 0)
       (sample_state 2) \<and>
   apply_event sliding_structure sample_kernel 1 (PVertex_to_iedge False (0, 0) 4 (1 / 2))
     (sample_state 2) =
     apply_single_vertex_crossing sliding_structure sample_kernel (1 / 2) (0, 0) 4 (0, 0)
       (sample_state 2) \<and>
   apply_event recording_structure sample_kernel 2 (PVertex_to_iedge False (0, 0) 3 (1 / 2))
     (recording_state 3) =
     apply_single_vertex_crossing recording_structure sample_kernel (1 / 2) (0, 0) 3 (0, 0)
       (recording_state 3) \<and>
   apply_event sample_structure sample_kernel 1 (PVertex_to_iedge False (0, 0) 4 (1 / 2))
     (sample_state 2) =
     Halts (Assertion_failed ''seg.squared_length() != 0'') (sample_state 2)"
proof -
  have a: "apply_event collinear_structure sample_kernel 1
      (PVertex_to_iedge False (0, 0) 4 (1 / 2)) (sample_state 2) =
      apply_two_vertices_crossing collinear_structure sample_kernel (1 / 2) (0, 0) (0, 2) 4 (0, 0)
        (sample_state 2)"
    using two_vertices_branch_entry
      [of "sample_state 2" collinear_structure "(0, 0)" 4 "1 / 2" sample_kernel 1 False,
        unfolded Let_def, THEN conjunct2, THEN conjunct2]
    by (simp add: collinear_structure_fields collinear_edges_parallel no_element_def)
  have b: "apply_event sliding_structure sample_kernel 1
      (PVertex_to_iedge False (0, 0) 4 (1 / 2)) (sample_state 2) =
      apply_single_vertex_crossing sliding_structure sample_kernel (1 / 2) (0, 0) 4 (0, 0)
        (sample_state 2)"
    using two_vertices_branch_entry
      [of "sample_state 2" sliding_structure "(0, 0)" 4 "1 / 2" sample_kernel 1 False,
        unfolded Let_def, THEN conjunct2, THEN conjunct1]
    by (simp add: sliding_structure_fields collinear_edges_parallel no_element_def)
  have c: "apply_event recording_structure sample_kernel 2
      (PVertex_to_iedge False (0, 0) 3 (1 / 2)) (recording_state 3) =
      apply_single_vertex_crossing recording_structure sample_kernel (1 / 2) (0, 0) 3 (0, 0)
        (recording_state 3)"
    using two_vertices_branch_entry
      [of "recording_state 3" recording_structure "(0, 0)" 3 "1 / 2" sample_kernel 2 False,
        unfolded Let_def, THEN conjunct2, THEN conjunct1]
    by (simp add: recording_geometry perpendicular_edges)
  have p: "point_2 sample_structure d pvertex t = (t, 0)"
    "prev_pvertex sample_structure d pvertex = (fst pvertex, 1)" for d pvertex t
    by (simp_all add: sample_structure_def)
  have d: "apply_event sample_structure sample_kernel 1
      (PVertex_to_iedge False (0, 0) 4 (1 / 2)) (sample_state 2) =
      Halts (Assertion_failed ''seg.squared_length() != 0'') (sample_state 2)"
    using two_vertices_branch_entry
      [of "sample_state 2" sample_structure "(0, 0)" 4 "1 / 2" sample_kernel 1 False,
        unfolded Let_def, THEN conjunct1]
    by (simp add: p squared_length_def squared_distance_2_def)
  from a b c d show ?thesis by blast
qed

section \<open>The crossing budget \<open>k\<close>\<close>

lemma fold_set_k:
  "fold (\<lambda>pface. set_k pface k) faces d =
     d\<lparr>k_of := (\<lambda>f. if f \<in> set faces then k else k_of d f)\<rparr>"
proof (induction faces arbitrary: d)
  case Nil
  then show ?case by simp
next
  case (Cons a faces)
  have table: "(\<lambda>f. if f \<in> set faces then k else k_of (set_k a k d) f) =
      (\<lambda>f. if f \<in> set (a # faces) then k else k_of d f)"
    by (rule ext) (simp add: set_k_def)
  have "fold (\<lambda>pface. set_k pface k) (a # faces) d =
      fold (\<lambda>pface. set_k pface k) faces (set_k a k d)"
    by simp
  also have "\<dots> = (set_k a k d)\<lparr>k_of := (\<lambda>f. if f \<in> set faces then k else k_of (set_k a k d) f)\<rparr>"
    by (rule Cons.IH)
  also have "\<dots> = d\<lparr>k_of := (\<lambda>f. if f \<in> set (a # faces) then k else k_of d f)\<rparr>"
    unfolding table by (simp add: set_k_def)
  finally show ?case .
qed

lemma set_k_intersections_from_result:
  assumes indep: "planes_independent_of_k D"
    and fuel: "number_of_support_planes D d \<le> i + fuel"
  shows "\<exists>d'. set_k_intersections_from D fuel k i d = Some d' \<and>
           core d' = core d \<and>
           number_of_support_planes D d' = number_of_support_planes D d \<and>
           (\<forall>j. pfaces_of_plane D d' j = pfaces_of_plane D d j) \<and>
           (\<forall>f. k_of d' f =
              (if \<exists>j. i \<le> j \<and> j < number_of_support_planes D d \<and> f \<in> set (pfaces_of_plane D d j)
               then k else k_of d f))"
  using fuel
proof (induction fuel arbitrary: i d)
  case 0
  then have "\<not> i < number_of_support_planes D d" by simp
  then show ?case by auto
next
  case (Suc fuel)
  show ?case
  proof (cases "i < number_of_support_planes D d")
    case False
    then show ?thesis by auto
  next
    case True
    let ?d1 = "fold (\<lambda>pface. set_k pface k) (pfaces_of_plane D d i) d"
    have d1: "?d1 = d\<lparr>k_of := (\<lambda>f. if f \<in> set (pfaces_of_plane D d i) then k else k_of d f)\<rparr>"
      by (rule fold_set_k)
    have n1: "number_of_support_planes D ?d1 = number_of_support_planes D d"
      and p1: "pfaces_of_plane D ?d1 = pfaces_of_plane D d"
      using indep unfolding d1 planes_independent_of_k_def by simp_all
    have "number_of_support_planes D ?d1 \<le> Suc i + fuel"
      using Suc.prems n1 by simp
    from Suc.IH [OF this] obtain d' where d':
      "set_k_intersections_from D fuel k (Suc i) ?d1 = Some d'"
      "core d' = core ?d1"
      "number_of_support_planes D d' = number_of_support_planes D ?d1"
      "\<forall>j. pfaces_of_plane D d' j = pfaces_of_plane D ?d1 j"
      "\<forall>f. k_of d' f =
          (if \<exists>j. Suc i \<le> j \<and> j < number_of_support_planes D ?d1 \<and>
                   f \<in> set (pfaces_of_plane D ?d1 j)
           then k else k_of ?d1 f)"
      by blast
    have kd': "k_of d' f =
        (if \<exists>j. Suc i \<le> j \<and> j < number_of_support_planes D d \<and> f \<in> set (pfaces_of_plane D d j)
         then k else k_of ?d1 f)" for f
      using d'(5) [rule_format, of f] unfolding n1 p1 .
    have run: "set_k_intersections_from D (Suc fuel) k i d = Some d'"
      using True d'(1) by simp
    have k: "k_of d' f =
        (if \<exists>j. i \<le> j \<and> j < number_of_support_planes D d \<and> f \<in> set (pfaces_of_plane D d j)
         then k else k_of d f)" for f
    proof (cases "\<exists>j. Suc i \<le> j \<and> j < number_of_support_planes D d \<and>
                      f \<in> set (pfaces_of_plane D d j)")
      case later: True
      then have "k_of d' f = k" using kd' [of f] by (simp only: if_True)
      moreover from later have "\<exists>j. i \<le> j \<and> j < number_of_support_planes D d \<and>
          f \<in> set (pfaces_of_plane D d j)"
        using Suc_leD by blast
      ultimately show ?thesis by (simp only: if_True)
    next
      case notlater: False
      then have a: "k_of d' f = k_of ?d1 f" using kd' [of f] by (simp only: if_False)
      show ?thesis
      proof (cases "f \<in> set (pfaces_of_plane D d i)")
        case here: True
        then have "k_of ?d1 f = k" unfolding d1 by simp
        moreover have "\<exists>j. i \<le> j \<and> j < number_of_support_planes D d \<and>
            f \<in> set (pfaces_of_plane D d j)"
          using here True by blast
        ultimately show ?thesis using a by (simp only: if_True)
      next
        case nothere: False
        then have b: "k_of ?d1 f = k_of d f" unfolding d1 by simp
        have "\<not> (\<exists>j. i \<le> j \<and> j < number_of_support_planes D d \<and>
            f \<in> set (pfaces_of_plane D d j))"
        proof
          assume "\<exists>j. i \<le> j \<and> j < number_of_support_planes D d \<and>
            f \<in> set (pfaces_of_plane D d j)"
          then obtain j where j: "i \<le> j" "j < number_of_support_planes D d"
              "f \<in> set (pfaces_of_plane D d j)" by blast
          show False
          proof (cases "j = i")
            case True
            with j nothere show False by simp
          next
            case False
            with j have "Suc i \<le> j" by simp
            with j notlater show False by blast
          qed
        qed
        then show ?thesis using a b by (simp only: if_False)
      qed
    qed
    have c: "core d' = core d" using d'(2) unfolding d1 by simp
    have n: "number_of_support_planes D d' = number_of_support_planes D d"
      using d'(3) n1 by simp
    have p: "\<forall>j. pfaces_of_plane D d' j = pfaces_of_plane D d j"
      using d'(4) p1 by simp
    from run c n p k show ?thesis by blast
  qed
qed







lemma remove_events_of_iedge_data [simp]:
  "m_data (remove_events_of_iedge iedge i s) = m_data s"
  by (simp add: remove_events_of_iedge_def)







lemma holds_after_and_then:
  assumes "holds_after Q r" and "\<And>a s1. Q s1 \<Longrightarrow> holds_after P (g a s1)"
    and "\<And>s1. Q s1 \<Longrightarrow> P s1"
  shows "holds_after P (and_then r g)"
  using assms by (cases r) simp_all

lemma holds_after_mono:
  assumes "holds_after P r" and "\<And>s. P s \<Longrightarrow> Q s"
  shows "holds_after Q r"
  using assms by (cases r) simp_all

lemma holds_after_assertion [simp]:
  "holds_after P (CGAL_assertion c msg s) = P s"
  by (simp add: CGAL_assertion_def)














lemma integrity_failure_state: "holds_after (\<lambda>s'. s' = s) (integrity_failure msg s)"
  by (simp add: integrity_failure_def)

lemma check_integrity_planes_state:
  "holds_after (\<lambda>s'. s' = s) (check_integrity_planes D K planes s)"
  by (induction planes) (simp_all add: integrity_failure_state split: option.splits)

lemma check_integrity_iedges_state:
  "holds_after (\<lambda>s'. s' = s) (check_integrity_iedges D K es s)"
  by (induction es) (simp_all add: integrity_failure_state split: option.splits)

lemma check_integrity_state: "holds_after (\<lambda>s'. s' = s) (check_integrity D K s)"
  unfolding check_integrity_def
  by (rule holds_after_and_then [OF check_integrity_planes_state])
    (simp_all add: check_integrity_iedges_state)





lemma CGAL_assertion_finishes [simp]: "CGAL_assertion c msg s \<noteq> Out_of_fuel"
  by (simp add: CGAL_assertion_def)


















lemma sample_structure_independent: "planes_independent_of_k sample_structure"
  by (simp add: planes_independent_of_k_def sample_structure_def)










section \<open>\<open>partition\<close> stops before the propagation\<close>

lemma and_then_Returns_iff:
  "and_then r f = Returns b s' \<longleftrightarrow> (\<exists>a s0. r = Returns a s0 \<and> f a s0 = Returns b s')"
  by (cases r) simp_all

lemma exit_process_never_returns: "exit_process status s \<noteq> Returns a s'"
  by (simp add: exit_process_def)

lemma partition_ksr_not_Returns:
  assumes "input_range \<noteq> []" "1 \<le> k" "1 \<le> enlarge_bbox_ratio"
  shows "partition_ksr D K fuel input_range k enlarge_bbox_ratio reorient s \<noteq> Returns b s'"
  using assms
  by (simp add: partition_ksr_def and_then_Returns_iff exit_process_never_returns Let_def
      split_beta not_less [symmetric] del: not_less)

lemma create_bounding_box_state:
  "holds_after (\<lambda>s'. s' = s) (create_bounding_box K input_range enlarge_bbox_ratio reorient s)"
  by (simp add: create_bounding_box_def initialize_optimal_box_def initialize_axis_aligned_box_def
      enlarge_bounding_box_def Let_def CGAL_assertion_def split: option.splits prod.splits)

lemma add_polygons_window:
  "holds_after (window_untouched s) (add_polygons D input_range bbox_faces s)"
  by (simp add: add_polygons_def add_bbox_faces_def add_input_polygons_def Let_def
      CGAL_assertion_def window_untouched_def)

lemma on_data_window: "holds_after (window_untouched s) (on_data f s)"
  by (simp add: on_data_def window_untouched_def split: option.splits)

lemma check_integrity_window: "holds_after (window_untouched s) (check_integrity D K s)"
  by (rule holds_after_mono [OF check_integrity_state]) (simp add: window_untouched_def)

lemma window_step:
  assumes "holds_after (window_untouched s1) r" and "window_untouched s s1"
    and "\<And>a s2. window_untouched s s2 \<Longrightarrow> holds_after (window_untouched s) (g a s2)"
  shows "holds_after (window_untouched s) (and_then r g)"
proof (rule holds_after_and_then [where Q = "window_untouched s"])
  show "holds_after (window_untouched s) r"
    by (rule holds_after_mono [OF assms(1)]) (use assms(2) in \<open>simp add: window_untouched_def\<close>)
qed (use assms(3) in auto)

lemma partition_ksr_window:
  "holds_after (window_untouched s)
     (partition_ksr D K fuel input_range k enlarge_bbox_ratio reorient s)"
proof -
  have here: "window_untouched s s" by (simp add: window_untouched_def)
  have e5: "holds_after (window_untouched s)
      (and_then (on_data (set_k_intersections D fuel k) s5) (\<lambda>_ s.
       Halts (Exit_process EXIT_SUCCESS) (s\<lparr>m_data := check_bbox D (m_data s)\<rparr>)))"
    if "window_untouched s s5" for s5
    by (rule window_step [OF on_data_window that]) (simp add: window_untouched_def)
  have e4: "holds_after (window_untouched s)
      (and_then (check_integrity D K s4) (\<lambda>_ s.
       and_then (on_data (set_k_intersections D fuel k) s) (\<lambda>_ s.
       Halts (Exit_process EXIT_SUCCESS) (s\<lparr>m_data := check_bbox D (m_data s)\<rparr>))))"
    if "window_untouched s s4" for s4
    by (rule window_step [OF check_integrity_window that]) (rule e5)
  have e3: "holds_after (window_untouched s)
      (and_then (on_data (make_polygons_intersection_free D K fuel) s3) (\<lambda>_ s.
       and_then (check_integrity D K s) (\<lambda>_ s.
       and_then (on_data (set_k_intersections D fuel k) s) (\<lambda>_ s.
       Halts (Exit_process EXIT_SUCCESS) (s\<lparr>m_data := check_bbox D (m_data s)\<rparr>)))))"
    if "window_untouched s s3" for s3
    by (rule window_step [OF on_data_window that]) (rule e4)
  have e2: "holds_after (window_untouched s)
      (and_then (check_integrity D K s2) (\<lambda>_ s.
       and_then (on_data (make_polygons_intersection_free D K fuel) s) (\<lambda>_ s.
       and_then (check_integrity D K s) (\<lambda>_ s.
       and_then (on_data (set_k_intersections D fuel k) s) (\<lambda>_ s.
       Halts (Exit_process EXIT_SUCCESS) (s\<lparr>m_data := check_bbox D (m_data s)\<rparr>))))))"
    if "window_untouched s s2" for s2
    by (rule window_step [OF check_integrity_window that]) (rule e3)
  have after_box: "holds_after (window_untouched s)
      (and_then (add_polygons D input_range faces s) (\<lambda>_ s.
       and_then (check_integrity D K s) (\<lambda>_ s.
       and_then (on_data (make_polygons_intersection_free D K fuel) s) (\<lambda>_ s.
       and_then (check_integrity D K s) (\<lambda>_ s.
       and_then (on_data (set_k_intersections D fuel k) s) (\<lambda>_ s.
       Halts (Exit_process EXIT_SUCCESS) (s\<lparr>m_data := check_bbox D (m_data s)\<rparr>)))))))" for faces
    by (rule window_step [OF add_polygons_window here]) (rule e2)
  show ?thesis
  proof (cases "length input_range = 0 \<or> k = 0 \<or> enlarge_bbox_ratio < 1")
    case True
    then show ?thesis by (auto simp: partition_ksr_def window_untouched_def)
  next
    case False
    then have "partition_ksr D K fuel input_range k enlarge_bbox_ratio reorient s =
        and_then (create_bounding_box K input_range enlarge_bbox_ratio reorient s)
          (\<lambda>(bbox, time_step) s.
       and_then (add_polygons D input_range (bounding_box_to_polygons bbox) s) (\<lambda>_ s.
       and_then (check_integrity D K s) (\<lambda>_ s.
       and_then (on_data (make_polygons_intersection_free D K fuel) s) (\<lambda>_ s.
       and_then (check_integrity D K s) (\<lambda>_ s.
       and_then (on_data (set_k_intersections D fuel k) s) (\<lambda>_ s.
       Halts (Exit_process EXIT_SUCCESS) (s\<lparr>m_data := check_bbox D (m_data s)\<rparr>)))))))"
      by (simp add: partition_ksr_def exit_process_def Let_def)
    moreover have "holds_after (window_untouched s) \<dots>"
      by (rule holds_after_and_then [OF create_bounding_box_state])
        (simp_all add: split_beta after_box here)
    ultimately show ?thesis by simp
  qed
qed

text \<open>
  Claim C1, amended: called with a non-empty input range, \<open>k \<ge> 1\<close> and
  \<open>enlarge_bbox_ratio \<ge> 1\<close>, \<open>partition\<close> never returns, neither \<open>true\<close> nor \<open>false\<close>,
  whatever fuel the loop over the time windows is given: \<open>initialize_queue\<close>, \<open>run\<close>
  and the final \<open>return true\<close> are not reached, and in the state in which the call stops
  the queue and the two ends of the time window are as they were when it was called.
  With \<open>reorient\<close> it stops at the
  assertion of the oriented bounding box, which is not implemented, in the state it was
  called in. In every call in which \<open>create_bounding_box\<close>, \<open>add_polygons\<close>, the first
  \<open>check_integrity\<close>, \<open>make_polygons_intersection_free\<close>, the second \<open>check_integrity\<close>
  and \<open>set_k_intersections\<close> return, it ends the process with \<open>exit(EXIT_SUCCESS)\<close> right
  after \<open>check_bbox\<close>, in the state that \<open>check_bbox\<close> has left.
\<close>

theorem partition_exits_before_propagation:
  assumes "input_range \<noteq> []" and "1 \<le> k" and "1 \<le> enlarge_bbox_ratio"
  shows
    "(\<forall>b s'. partition_ksr D K fuel input_range k enlarge_bbox_ratio reorient s \<noteq> Returns b s') \<and>
     holds_after
       (\<lambda>s'. m_queue s' = m_queue s \<and> m_min_time s' = m_min_time s \<and> m_max_time s' = m_max_time s)
       (partition_ksr D K fuel input_range k enlarge_bbox_ratio reorient s) \<and>
     (reorient \<longrightarrow>
        partition_ksr D K fuel input_range k enlarge_bbox_ratio reorient s =
          Halts (Assertion_failed ''TODO: IMPLEMENT THE ORIENTED OPTIMAL BBOX!'') s) \<and>
     (create_bounding_box K input_range enlarge_bbox_ratio reorient s =
        Returns (bbox, time_step) s0 \<and>
      add_polygons D input_range (bounding_box_to_polygons bbox) s0 = Returns () s1 \<and>
      check_integrity D K s1 = Returns ok1 s2 \<and>
      on_data (make_polygons_intersection_free D K fuel) s2 = Returns () s3 \<and>
      check_integrity D K s3 = Returns ok2 s4 \<and>
      on_data (set_k_intersections D fuel k) s4 = Returns () s5 \<longrightarrow>
        partition_ksr D K fuel input_range k enlarge_bbox_ratio reorient s =
          Halts (Exit_process EXIT_SUCCESS) (s5\<lparr>m_data := check_bbox D (m_data s5)\<rparr>))"
proof (intro conjI impI allI)
  fix b s'
  show "partition_ksr D K fuel input_range k enlarge_bbox_ratio reorient s \<noteq> Returns b s'"
    using assms by (rule partition_ksr_not_Returns)
next
  show "holds_after
       (\<lambda>s'. m_queue s' = m_queue s \<and> m_min_time s' = m_min_time s \<and> m_max_time s' = m_max_time s)
       (partition_ksr D K fuel input_range k enlarge_bbox_ratio reorient s)"
    using partition_ksr_window [of s D K fuel input_range k enlarge_bbox_ratio reorient]
    unfolding window_untouched_def .
next
  assume reorient
  then show "partition_ksr D K fuel input_range k enlarge_bbox_ratio reorient s =
      Halts (Assertion_failed ''TODO: IMPLEMENT THE ORIENTED OPTIMAL BBOX!'') s"
    using assms
    by (simp add: partition_ksr_def create_bounding_box_def initialize_optimal_box_def)
next
  assume "create_bounding_box K input_range enlarge_bbox_ratio reorient s =
        Returns (bbox, time_step) s0 \<and>
      add_polygons D input_range (bounding_box_to_polygons bbox) s0 = Returns () s1 \<and>
      check_integrity D K s1 = Returns ok1 s2 \<and>
      on_data (make_polygons_intersection_free D K fuel) s2 = Returns () s3 \<and>
      check_integrity D K s3 = Returns ok2 s4 \<and>
      on_data (set_k_intersections D fuel k) s4 = Returns () s5"
  then show "partition_ksr D K fuel input_range k enlarge_bbox_ratio reorient s =
      Halts (Exit_process EXIT_SUCCESS) (s5\<lparr>m_data := check_bbox D (m_data s5)\<rparr>)"
    using assms
    by (simp add: partition_ksr_def exit_process_def Let_def)
qed


lemma sample_check_integrity_planes:
  "check_integrity_planes sample_structure K planes s = Returns True s"
  by (induction planes) (simp_all add: sample_structure_def)

lemma sample_check_integrity_iedges:
  "check_integrity_iedges sample_structure K es s = Returns True s"
  by (induction es) (simp_all add: sample_structure_def)

lemma sample_check_integrity: "check_integrity sample_structure K s = Returns True s"
  by (simp add: check_integrity_def sample_check_integrity_planes sample_check_integrity_iedges)

lemma sample_transverse_lines_fold:
  "fold (\<lambda>ivertex map_p2vv.
           let key = intersected_planes_of_ivertex sample_structure d ivertex False
           in if length key < 2 then map_p2vv
              else map_p2vv_insert (null_ivertex sample_structure) key ivertex map_p2vv)
        vs acc = acc"
  by (induction vs) (simp_all add: sample_structure_def)

lemma sample_split_support_planes:
  "core d \<le> i + fuel \<Longrightarrow> split_support_planes_from sample_structure fuel i d = Some d"
proof (induction fuel arbitrary: i)
  case 0
  then show ?case by (simp add: sample_structure_def)
next
  case (Suc fuel)
  have step: "split_support_plane sample_structure i d = d"
    "number_of_support_planes sample_structure d = core d"
    by (simp_all add: sample_structure_def)
  from Suc.prems have "core d \<le> Suc i + fuel" by simp
  from Suc.IH [OF this] show ?case by (simp add: step)
qed

lemma sample_make_polygons_intersection_free:
  "core d \<le> fuel \<Longrightarrow> make_polygons_intersection_free sample_structure K fuel d = Some d"
  by (simp add: make_polygons_intersection_free_def create_transverse_lines_def
      sample_transverse_lines_fold sample_split_support_planes)

lemma sample_create_bounding_box:
  "create_bounding_box sample_kernel [[(0, 0, 0), (1, 1, 1)]] (11 / 10) False s =
     Returns ([(- 1 / 20, - 1 / 20, - 1 / 20), (21 / 20, - 1 / 20, - 1 / 20),
               (21 / 20, 21 / 20, - 1 / 20), (- 1 / 20, 21 / 20, - 1 / 20),
               (- 1 / 20, 21 / 20, 21 / 20), (- 1 / 20, - 1 / 20, 21 / 20),
               (21 / 20, - 1 / 20, 21 / 20), (21 / 20, 21 / 20, 21 / 20)], 1 / 25) s"
  by (simp add: create_bounding_box_def initialize_axis_aligned_box_def bbox_3_of_points_def
      enlarge_bounding_box_def centroid_def sample_kernel_def sample_sqrt_def Let_def)

lemma sample_add_polygons:
  "add_polygons sample_structure [polygon] bbox_faces (sample_state 0) =
     (if length bbox_faces = 6 then Returns () (sample_state 7)
      else Halts (Assertion_failed ''m_data.number_of_support_planes() == 6'')
             (sample_state (length bbox_faces)))"
proof -
  have f: "fold (add_bbox_polygon sample_structure) faces d = d\<lparr>core := core d + length faces\<rparr>"
    for faces and d :: "nat data"
    by (induction faces arbitrary: d) (simp_all add: sample_structure_def)
  have g: "reserve sample_structure n d = d"
    "add_input_polygon sample_structure p j d = d\<lparr>core := core d + 1\<rparr>"
    "number_of_support_planes sample_structure d = core d"
    "ivertices sample_structure d = (if 6 \<le> core d then [0 ..< 8] else [])"
    "iedges_all sample_structure d = (if 6 \<le> core d then [0 ..< 12] else [])"
    for n p j and d :: "nat data"
    by (simp_all add: sample_structure_def)
  show ?thesis
    by (simp add: add_polygons_def add_bbox_faces_def add_input_polygons_def f g sample_state_def)
qed


text \<open>
  Claim C1, as stated, with \<open>reorient\<close>, one input polygon, \<open>k = 1\<close> and
  \<open>enlarge_bbox_ratio = 11/10\<close>: the process stops at the assertion of the oriented
  bounding box, in the state \<open>partition\<close> was called in, before any polygon is added and
  not through \<open>exit\<close>.
\<close>

theorem partition_with_reorient_fails_assertion:
  "[[(0, 0, 0), (1, 1, 1)]] \<noteq> ([] :: point_3 list list) \<and> (1::nat) \<le> 1 \<and> (1::FT) \<le> 11 / 10 \<and>
   partition_ksr sample_structure sample_kernel 7 [[(0, 0, 0), (1, 1, 1)]] 1 (11 / 10) True
     (sample_state 0) =
     Halts (Assertion_failed ''TODO: IMPLEMENT THE ORIENTED OPTIMAL BBOX!'') (sample_state 0)"
  by (simp add: partition_ksr_def create_bounding_box_def initialize_optimal_box_def)

theorem partition_exits_before_propagation_witness:
  "partition_ksr sample_structure sample_kernel 7 [[(0, 0, 0), (1, 1, 1)]] 2 (11 / 10) True
     (sample_state 0) =
     Halts (Assertion_failed ''TODO: IMPLEMENT THE ORIENTED OPTIMAL BBOX!'') (sample_state 0) \<and>
   (\<exists>s'. partition_ksr sample_structure sample_kernel 7 [[(0, 0, 0), (1, 1, 1)]] 2 (11 / 10) False
           (sample_state 0) = Halts (Exit_process EXIT_SUCCESS) s')"
proof -
  have input: "[[(0, 0, 0), (1, 1, 1)]] \<noteq> ([] :: point_3 list list)" by simp
  have k: "(1::nat) \<le> 2" by simp
  have r: "(1::FT) \<le> 11 / 10" by simp
  have a: "partition_ksr sample_structure sample_kernel 7 [[(0, 0, 0), (1, 1, 1)]] 2 (11 / 10) True
      (sample_state 0) =
      Halts (Assertion_failed ''TODO: IMPLEMENT THE ORIENTED OPTIMAL BBOX!'') (sample_state 0)"
    using partition_exits_before_propagation [OF input k r,
        where reorient = True and D = sample_structure and K = sample_kernel and fuel = 7
          and s = "sample_state 0", THEN conjunct2, THEN conjunct2, THEN conjunct1]
    by blast
  define bbox :: "point_3 list" where
    "bbox = [(- 1 / 20, - 1 / 20, - 1 / 20), (21 / 20, - 1 / 20, - 1 / 20),
             (21 / 20, 21 / 20, - 1 / 20), (- 1 / 20, 21 / 20, - 1 / 20),
             (- 1 / 20, 21 / 20, 21 / 20), (- 1 / 20, - 1 / 20, 21 / 20),
             (21 / 20, - 1 / 20, 21 / 20), (21 / 20, 21 / 20, 21 / 20)]"
  define s5 where
    "s5 = (sample_state 7)\<lparr>m_data :=
            the (set_k_intersections sample_structure 7 2 (m_data (sample_state 7)))\<rparr>"
  have c1: "create_bounding_box sample_kernel [[(0, 0, 0), (1, 1, 1)]] (11 / 10) False
      (sample_state 0) = Returns (bbox, 1 / 25) (sample_state 0)"
    unfolding bbox_def by (rule sample_create_bounding_box)
  have c2: "add_polygons sample_structure [[(0, 0, 0), (1, 1, 1)]] (bounding_box_to_polygons bbox)
      (sample_state 0) = Returns () (sample_state 7)"
    by (simp add: sample_add_polygons bounding_box_to_polygons_def)
  have c3: "check_integrity sample_structure sample_kernel (sample_state 7) =
      Returns True (sample_state 7)"
    by (rule sample_check_integrity)
  have c4: "on_data (make_polygons_intersection_free sample_structure sample_kernel 7)
      (sample_state 7) = Returns () (sample_state 7)"
    by (simp add: on_data_def sample_make_polygons_intersection_free sample_state_def)
  have "number_of_support_planes sample_structure (m_data (sample_state 7)) \<le> 0 + 7"
    by (simp add: sample_structure_fields sample_state_def)
  from set_k_intersections_from_result [OF sample_structure_independent this, of 2]
  obtain d' where "set_k_intersections sample_structure 7 2 (m_data (sample_state 7)) = Some d'"
    unfolding set_k_intersections_def by blast
  then have c5: "on_data (set_k_intersections sample_structure 7 2) (sample_state 7) = Returns () s5"
    by (simp add: on_data_def s5_def)
  have "partition_ksr sample_structure sample_kernel 7 [[(0, 0, 0), (1, 1, 1)]] 2 (11 / 10) False
      (sample_state 0) =
      Halts (Exit_process EXIT_SUCCESS) (s5\<lparr>m_data := check_bbox sample_structure (m_data s5)\<rparr>)"
    using partition_exits_before_propagation [OF input k r,
        where reorient = False and D = sample_structure and K = sample_kernel and fuel = 7
          and s = "sample_state 0" and bbox = bbox and time_step = "1 / 25"
          and ?s0.0 = "sample_state 0" and ?s1.0 = "sample_state 7" and ?ok1.0 = True
          and ?s2.0 = "sample_state 7" and ?s3.0 = "sample_state 7" and ?ok2.0 = True
          and ?s4.0 = "sample_state 7" and ?s5.0 = s5,
        THEN conjunct2, THEN conjunct2, THEN conjunct2]
      c1 c2 c3 c4 c5
    by blast
  then have c: "\<exists>s'. partition_ksr sample_structure sample_kernel 7 [[(0, 0, 0), (1, 1, 1)]] 2
      (11 / 10) False (sample_state 0) = Halts (Exit_process EXIT_SUCCESS) s'"
    by blast
  from a c show ?thesis by blast
qed

end
